theory Spec2Isabelle
  imports Main
begin

section \<open>The view layer of PyXRF: \<^verbatim>\<open>pyxrf/view/fileio.enaml\<close>\<close>

text \<open>
  The file declares two views, \<^verbatim>\<open>FileView\<close> and \<^verbatim>\<open>MaskView\<close>. Their event handlers
  (the blocks after \<^verbatim>\<open>clicked ::\<close> and \<^verbatim>\<open>checked ::\<close>) are Python code that reads and
  writes attributes of five model objects and of the widgets, calls methods of the models and
  opens message boxes. Each handler is embedded as a function from the application state
  before the event to the outcome and the state after it.

  The classes of the models are not part of the view layer. What a handler reads or writes
  of a model is a field of a record; what runs inside a model (a method, or the observer
  behind the assignment of \<^verbatim>\<open>io_model.file_name\<close>) is a parameter of the handler, collected
  in the record \<open>externals\<close>. Such code acts on the model it belongs to and may raise,
  inside a \<^verbatim>\<open>try\<close> or not; an exception that no \<^verbatim>\<open>except\<close> catches ends the handler. The
  message boxes and the assignments of the other attributes return.

  A dictionary is held by value: an assignment such as
  \<^verbatim>\<open>setting_model.data_sets = io_model.data_sets\<close> stores what the dictionary holds at that
  moment.
\<close>

subsection \<open>Exceptions and outcomes\<close>

datatype exn =
    KeyError string
  | IndexError
  | AttributeError
  | ValueError
  | TypeError
  | ModelError string

datatype outcome = Done | Raised exn

subsection \<open>The models\<close>

text \<open>
  An object the view only passes on (a parameter dictionary, an image) is its identity. Of
  the data set of a channel the handlers read and write \<^verbatim>\<open>plot_index\<close> only.
\<close>

type_synonym pyobj = nat

record data_set =
  plot_index :: int

record io_model =
  working_directory :: string
  file_name :: string
  data_ready :: bool
  runid :: int
  file_channel_list :: "string list"
  data_sets :: "string \<rightharpoonup> data_set"
  incident_energy_available :: bool
  file_overwrite_existing :: bool
  mask_opt :: int
  mask_name :: string

record param_model =
  param_new :: pyobj

record plot_model =
  plot_parameters :: pyobj
  plot_data_sets :: "string \<rightharpoonup> data_set"
  plot_exp_opt :: bool
  show_exp_opt :: bool

record setting_model =
  setting_parameters :: pyobj
  setting_data_sets :: "string \<rightharpoonup> data_set"

record fit_model =
  fit_data_sets :: "string \<rightharpoonup> data_set"
  fit_img :: "string \<rightharpoonup> pyobj"

subsection \<open>The widgets\<close>

text \<open>
  The attributes of the widgets that the handlers read or write: \<^verbatim>\<open>files_load.text\<close>,
  \<^verbatim>\<open>folder_btn.enabled\<close>, \<^verbatim>\<open>run_num.value\<close>, \<^verbatim>\<open>cb_file_overwrite_existing.checked\<close>,
  the \<^verbatim>\<open>checked\<close> attribute of the three radio buttons of the mask view,
  \<^verbatim>\<open>mask_load_note.text\<close>, and whether the mask window is open.
\<close>

record widgets =
  files_load_text :: string
  folder_btn_enabled :: bool
  run_num_value :: int
  cb_file_overwrite_existing_checked :: bool
  rb_pos_checked :: bool
  rb_file_checked :: bool
  rb_nomask_checked :: bool
  mask_load_note_text :: string
  mask_view_visible :: bool

subsection \<open>Events\<close>

text \<open>
  What a handler does to the outside is recorded in order: every message box it opens
  (title and text), every method of a model it calls, and every attribute of \<^verbatim>\<open>io_model\<close>
  it assigns.
\<close>

datatype event =
    Critical string string
  | Warning string string
  | Question string string
  | Set_data_ready bool
  | Set_file_name string
  | Set_working_directory string
  | Set_runid int
  | Set_mask_opt int
  | Set_mask_name string
  | Load_data_runid
  | Window_title_clear
  | Window_title_set_file_name string
  | Window_title_set_run_id int
  | Apply_mask
  | Plot_multi_exp_data
  | Mask_view_close

record app =
  io :: io_model
  param :: param_model
  plot :: plot_model
  setting :: setting_model
  fit :: fit_model
  view :: widgets
  events :: "event list"

subsection \<open>Code of the models that the handlers run\<close>

text \<open>
  \<open>set_file_name\<close> is the assignment \<^verbatim>\<open>io_model.file_name = v\<close>, which loads the file
  (the source guards it with \<^verbatim>\<open>try\<close>); the others are the methods of the same names.
  \<open>sep_v\<close> is the constant imported from \<^verbatim>\<open>..model.fileio\<close>.
\<close>

record externals =
  set_file_name :: "string \<Rightarrow> io_model \<Rightarrow> io_model \<times> exn option"
  load_data_runid :: "io_model \<Rightarrow> io_model \<times> exn option"
  window_title_clear :: "io_model \<Rightarrow> io_model \<times> exn option"
  window_title_set_file_name :: "string \<Rightarrow> io_model \<Rightarrow> io_model \<times> exn option"
  window_title_set_run_id :: "int \<Rightarrow> io_model \<Rightarrow> io_model \<times> exn option"
  apply_mask :: "io_model \<Rightarrow> io_model \<times> exn option"
  plot_multi_exp_data :: "plot_model \<Rightarrow> plot_model \<times> exn option"
  sep_v :: string

text \<open>
  A statement of a handler changes one component of the state: it records an event, or it
  updates one model or the widgets.
\<close>

definition emit :: "event \<Rightarrow> app \<Rightarrow> app" where
  "emit ev s = s\<lparr>events := events s @ [ev]\<rparr>"

definition in_io :: "(io_model \<Rightarrow> io_model) \<Rightarrow> app \<Rightarrow> app" where
  "in_io f s = s\<lparr>io := f (io s)\<rparr>"

definition in_plot :: "(plot_model \<Rightarrow> plot_model) \<Rightarrow> app \<Rightarrow> app" where
  "in_plot f s = s\<lparr>plot := f (plot s)\<rparr>"

definition in_setting :: "(setting_model \<Rightarrow> setting_model) \<Rightarrow> app \<Rightarrow> app" where
  "in_setting f s = s\<lparr>setting := f (setting s)\<rparr>"

definition in_fit :: "(fit_model \<Rightarrow> fit_model) \<Rightarrow> app \<Rightarrow> app" where
  "in_fit f s = s\<lparr>fit := f (fit s)\<rparr>"

definition in_view :: "(widgets \<Rightarrow> widgets) \<Rightarrow> app \<Rightarrow> app" where
  "in_view f s = s\<lparr>view := f (view s)\<rparr>"

text \<open>
  An assignment to an attribute of \<^verbatim>\<open>io_model\<close>, and a call of code of a model: the state
  after it and the exception it raised, if any.
\<close>

definition assign_io :: "event \<Rightarrow> (io_model \<Rightarrow> io_model) \<Rightarrow> app \<Rightarrow> app" where
  "assign_io ev upd s = emit ev (in_io upd s)"

definition call_io :: "event \<Rightarrow> (io_model \<Rightarrow> io_model \<times> exn option) \<Rightarrow> app \<Rightarrow> app \<times> exn option" where
  "call_io ev m s = (emit ev (in_io (\<lambda>x. fst (m x)) s), snd (m (io s)))"

definition call_plot :: "event \<Rightarrow> (plot_model \<Rightarrow> plot_model \<times> exn option) \<Rightarrow> app \<Rightarrow> app \<times> exn option" where
  "call_plot ev m s = (emit ev (in_plot (\<lambda>x. fst (m x)) s), snd (m (plot s)))"

definition finish :: "app \<times> exn option \<Rightarrow> outcome \<times> app" where
  "finish p = (case p of (s, None) \<Rightarrow> (Done, s) | (s, Some e) \<Rightarrow> (Raised e, s))"

section \<open>\<^verbatim>\<open>MaskView\<close>: the mask window\<close>

subsection \<open>The radio buttons \<^verbatim>\<open>rb_pos\<close>, \<^verbatim>\<open>rb_file\<close>, \<^verbatim>\<open>rb_nomask\<close>\<close>

text \<open>
  The expression each radio button gives for its \<^verbatim>\<open>checked\<close> attribute
  (\<^verbatim>\<open>checked = io_model.mask_opt==0\<close>, the same in all three).
\<close>

definition rb_pos_checked_expr :: "io_model \<Rightarrow> bool" where
  "rb_pos_checked_expr m = (mask_opt m = 0)"

definition rb_file_checked_expr :: "io_model \<Rightarrow> bool" where
  "rb_file_checked_expr m = (mask_opt m = 0)"

definition rb_nomask_checked_expr :: "io_model \<Rightarrow> bool" where
  "rb_nomask_checked_expr m = (mask_opt m = 0)"

datatype mask_button = Rb_pos | Rb_file | Rb_nomask

fun checked_expr :: "mask_button \<Rightarrow> io_model \<Rightarrow> bool" where
  "checked_expr Rb_pos = rb_pos_checked_expr"
| "checked_expr Rb_file = rb_file_checked_expr"
| "checked_expr Rb_nomask = rb_nomask_checked_expr"

text \<open>
  The click handlers: \<^verbatim>\<open>if checked: io_model.mask_opt = 1\<close> (and \<open>2\<close>, \<open>0\<close>), where
  \<^verbatim>\<open>checked\<close> is the attribute of the button that was clicked.
\<close>

definition rb_pos_clicked :: "app \<Rightarrow> outcome \<times> app" where
  "rb_pos_clicked s =
     (if rb_pos_checked (view s)
      then (Done, assign_io (Set_mask_opt 1) (\<lambda>m. m\<lparr>mask_opt := 1\<rparr>) s)
      else (Done, s))"

definition rb_file_clicked :: "app \<Rightarrow> outcome \<times> app" where
  "rb_file_clicked s =
     (if rb_file_checked (view s)
      then (Done, assign_io (Set_mask_opt 2) (\<lambda>m. m\<lparr>mask_opt := 2\<rparr>) s)
      else (Done, s))"

definition rb_nomask_clicked :: "app \<Rightarrow> outcome \<times> app" where
  "rb_nomask_clicked s =
     (if rb_nomask_checked (view s)
      then (Done, assign_io (Set_mask_opt 0) (\<lambda>m. m\<lparr>mask_opt := 0\<rparr>) s)
      else (Done, s))"

text \<open>The value of \<^verbatim>\<open>mask_opt\<close> that the click handler of each button assigns.\<close>

fun assigned_mask_opt :: "mask_button \<Rightarrow> int" where
  "assigned_mask_opt Rb_pos = 1"
| "assigned_mask_opt Rb_file = 2"
| "assigned_mask_opt Rb_nomask = 0"

subsection \<open>The buttons \<^verbatim>\<open>mask_btn\<close> (Load) and \<^verbatim>\<open>save_btn\<close> (Save)\<close>

text \<open>
  \<^verbatim>\<open>item.split(sep_v)\<close>: the pieces of \<open>item\<close> between the occurrences of the separator,
  found from the left; an empty separator raises \<^verbatim>\<open>ValueError\<close>. The second argument of
  \<open>split_from\<close> counts the characters of a separator just matched that are still to be
  skipped, the third holds the current piece reversed.
\<close>

fun split_from :: "string \<Rightarrow> nat \<Rightarrow> string \<Rightarrow> string \<Rightarrow> string list" where
  "split_from sep k cur [] = [rev cur]"
| "split_from sep (Suc k) cur (c # cs) = split_from sep k cur cs"
| "split_from sep 0 cur (c # cs) =
     (if take (length sep) (c # cs) = sep
      then rev cur # split_from sep (length sep - 1) [] cs
      else split_from sep 0 (c # cur) cs)"

definition py_split :: "string \<Rightarrow> string \<Rightarrow> exn + string list" where
  "py_split item sep = (if sep = [] then Inl ValueError else Inr (split_from sep 0 [] item))"

text \<open>
  \<^verbatim>\<open>[item.split(sep_v)[-1] for item in path][0]\<close>: the last piece of the first item. The
  comprehension splits every item with the same separator, so it raises when the first
  split does. The list of pieces is never empty.
\<close>

definition first_base_name :: "string \<Rightarrow> string list \<Rightarrow> exn + string" where
  "first_base_name sep path =
     (case path of
        [] \<Rightarrow> Inl IndexError
      | item # others \<Rightarrow>
          (case py_split item sep of
             Inl e \<Rightarrow> Inl e
           | Inr pieces \<Rightarrow> Inr (last pieces)))"

text \<open>
  \<^verbatim>\<open>mask_btn.clicked\<close>; \<open>path\<close> is what the file dialog returned (the empty list when it
  was cancelled).
\<close>

definition mask_btn_clicked :: "externals \<Rightarrow> string list \<Rightarrow> app \<Rightarrow> outcome \<times> app" where
  "mask_btn_clicked ext path s =
     (if path = [] then (Done, s)
      else
        (case first_base_name (sep_v ext) path of
           Inl e \<Rightarrow> (Raised e, s)
         | Inr name \<Rightarrow>
             (let s1 = assign_io (Set_mask_name name) (\<lambda>m. m\<lparr>mask_name := name\<rparr>) s
              in (Done, in_view (\<lambda>w. w\<lparr>mask_load_note_text := name\<rparr>) s1))))"

text \<open>\<^verbatim>\<open>save_btn.clicked\<close>: \<^verbatim>\<open>io_model.apply_mask()\<close>, then \<^verbatim>\<open>mask_view.close()\<close>.\<close>

definition save_btn_clicked :: "externals \<Rightarrow> app \<Rightarrow> outcome \<times> app" where
  "save_btn_clicked ext s =
     (case call_io Apply_mask (apply_mask ext) s of
        (s1, Some e) \<Rightarrow> (Raised e, s1)
      | (s1, None) \<Rightarrow>
          (Done, emit Mask_view_close (in_view (\<lambda>w. w\<lparr>mask_view_visible := False\<rparr>) s1)))"

text \<open>
  The handlers of the mask view, as one step function over the clicks in the window. (The
  four number fields of the window are bound to \<^verbatim>\<open>p1_row\<close>, \<^verbatim>\<open>p1_col\<close>, \<^verbatim>\<open>p2_row\<close> and
  \<^verbatim>\<open>p2_col\<close> of the model and have no handler.)
\<close>

datatype mask_view_event =
    Click_rb_pos
  | Click_rb_file
  | Click_rb_nomask
  | Click_mask_btn "string list"
  | Click_save_btn

fun mask_view_step :: "externals \<Rightarrow> mask_view_event \<Rightarrow> app \<Rightarrow> outcome \<times> app" where
  "mask_view_step ext Click_rb_pos s = rb_pos_clicked s"
| "mask_view_step ext Click_rb_file s = rb_file_clicked s"
| "mask_view_step ext Click_rb_nomask s = rb_nomask_clicked s"
| "mask_view_step ext (Click_mask_btn path) s = mask_btn_clicked ext path s"
| "mask_view_step ext Click_save_btn s = save_btn_clicked ext s"

text \<open>The values given to \<^verbatim>\<open>mask_opt\<close> among a list of events.\<close>

fun mask_opt_writes :: "event list \<Rightarrow> int list" where
  "mask_opt_writes [] = []"
| "mask_opt_writes (Set_mask_opt v # evs) = v # mask_opt_writes evs"
| "mask_opt_writes (ev # evs) = mask_opt_writes evs"

section \<open>\<^verbatim>\<open>FileView\<close>: the file panel\<close>

subsection \<open>Library functions of Python\<close>

text \<open>
  \<^verbatim>\<open>os.path.split\<close> as the POSIX implementation computes it: the tail is what follows the
  last slash, the head is what precedes it, without its trailing slashes unless it consists
  of slashes only.
\<close>

definition os_path_split :: "string \<Rightarrow> string \<times> string" where
  "os_path_split p =
     (let tail = rev (takeWhile (\<lambda>c. c \<noteq> CHR ''/'') (rev p));
          head = take (length p - length tail) p
      in (if head \<noteq> [] \<and> (\<exists>c \<in> set head. c \<noteq> CHR ''/'')
          then rev (dropWhile (\<lambda>c. c = CHR ''/'') (rev head))
          else head,
          tail))"

text \<open>\<^verbatim>\<open>str\<close> of an integer, as the f-strings format it.\<close>

fun str_nat :: "nat \<Rightarrow> string" where
  "str_nat n =
     (if n < 10 then [char_of (48 + n)]
      else str_nat (n div 10) @ [char_of (48 + n mod 10)])"

declare str_nat.simps [simp del]

definition str_int :: "int \<Rightarrow> string" where
  "str_int i = (if i < 0 then CHR ''-'' # str_nat (nat (- i)) else str_nat (nat i))"

subsection \<open>The texts of the message boxes\<close>

definition incorrect_format_text :: "string \<Rightarrow> string" where
  "incorrect_format_text p =
     ''Incorrect format of input file '' @ [CHR 0x22] @ p @ [CHR 0x22]
       @ '': PyXRF accepts only custom HDF (.h5) files.''"

definition database_error_text :: "int \<Rightarrow> string" where
  "database_error_text r =
     ''Error occurred while reading data (Run ID: '' @ str_int r @ '') from the database''"

definition incident_energy_text :: string where
  "incident_energy_text =
     ''Incident energy is not available in scan metadata and must be set manually''
       @ [CHR 0x0A, CHR 0x0A]
       @ ''    Incident energy may be set by changing 'Incident E [keV]' parameter'' @ [CHR 0x0A]
       @ ''    in 'Automated Element Search Parameters' dialog box, which is accessed'' @ [CHR 0x0A]
       @ ''    by using 'Find Elements Automatically' button in 'Fit' tab.'' @ [CHR 0x0A]"

definition overwrite_question_text :: string where
  "overwrite_question_text =
     ''Loading data from the database with 'Overwrite Existing Files' option enabled'' @ [CHR 0x0A]
       @ ''may result in overwriting existing files that contain processing results.'' @ [CHR 0x0A]
       @ ''Are you sure you want to enable this option?''"

subsection \<open>\<^verbatim>\<open>files_btn\<close>: Load Data File\<close>

text \<open>
  The statements of the \<^verbatim>\<open>if path:\<close> block before the \<^verbatim>\<open>try\<close>: \<^verbatim>\<open>data_ready = False\<close>,
  \<^verbatim>\<open>file_name = 'temp'\<close> (the same observed assignment as the one under \<^verbatim>\<open>try\<close>, not
  guarded here), and \<^verbatim>\<open>working_directory = f_dir\<close>. \<open>p0\<close> is \<^verbatim>\<open>path[0]\<close>.
\<close>

definition files_btn_prepare :: "externals \<Rightarrow> string \<Rightarrow> app \<Rightarrow> app \<times> exn option" where
  "files_btn_prepare ext p0 s =
     (let s1 = assign_io (Set_data_ready False) (\<lambda>m. m\<lparr>data_ready := False\<rparr>) s
      in case call_io (Set_file_name ''temp'') (set_file_name ext ''temp'') s1 of
           (s2, Some e) \<Rightarrow> (s2, Some e)
         | (s2, None) \<Rightarrow>
             (let f_dir = fst (os_path_split p0)
              in (assign_io (Set_working_directory f_dir)
                    (\<lambda>m. m\<lparr>working_directory := f_dir\<rparr>) s2, None)))"

text \<open>The \<^verbatim>\<open>except:\<close> block.\<close>

definition files_btn_except :: "externals \<Rightarrow> string \<Rightarrow> app \<Rightarrow> outcome \<times> app" where
  "files_btn_except ext p0 s =
     finish (call_io Window_title_clear (window_title_clear ext)
               (emit (Critical ''ERROR'' (incorrect_format_text p0)) s))"

text \<open>The \<^verbatim>\<open>else:\<close> block.\<close>

definition files_btn_else :: "externals \<Rightarrow> string \<Rightarrow> app \<Rightarrow> outcome \<times> app" where
  "files_btn_else ext f_name s =
     (let s1 = in_view (\<lambda>w. w\<lparr>files_load_text := file_name (io s) @ '' is loaded.''\<rparr>) s;
          s2 = in_view (\<lambda>w. w\<lparr>folder_btn_enabled := False\<rparr>) s1;
          s3 = in_plot (\<lambda>p. p\<lparr>plot_parameters := param_new (param s2)\<rparr>) s2;
          s4 = in_setting (\<lambda>g. g\<lparr>setting_parameters := param_new (param s3)\<rparr>) s3;
          s5 = in_setting (\<lambda>g. g\<lparr>setting_data_sets := data_sets (io s4)\<rparr>) s4;
          s6 = in_fit (\<lambda>f. f\<lparr>fit_data_sets := data_sets (io s5)\<rparr>) s5;
          s7 = in_fit (\<lambda>f. f\<lparr>fit_img := Map.empty\<rparr>) s6
      in case call_io (Window_title_set_file_name f_name)
                (window_title_set_file_name ext f_name) s7 of
           (s8, Some e) \<Rightarrow> (Raised e, s8)
         | (s8, None) \<Rightarrow>
             (if \<not> incident_energy_available (io s8)
              then (Done, emit (Warning ''Warning'' incident_energy_text) s8)
              else (Done, s8)))"

text \<open>The \<^verbatim>\<open>try\<close> statement: \<^verbatim>\<open>io_model.file_name = f_name\<close>, then one of the two blocks.\<close>

definition files_btn_try :: "externals \<Rightarrow> string \<Rightarrow> string \<Rightarrow> app \<Rightarrow> outcome \<times> app" where
  "files_btn_try ext p0 f_name s =
     (case call_io (Set_file_name f_name) (set_file_name ext f_name) s of
        (s1, Some e) \<Rightarrow> files_btn_except ext p0 s1
      | (s1, None) \<Rightarrow> files_btn_else ext f_name s1)"

text \<open>
  The handler; \<open>path\<close> is the list of names the file dialog returned (empty when it was
  cancelled).
\<close>

definition files_btn_clicked :: "externals \<Rightarrow> string list \<Rightarrow> app \<Rightarrow> outcome \<times> app" where
  "files_btn_clicked ext path s =
     (case path of
        [] \<Rightarrow> (Done, s)
      | p0 # others \<Rightarrow>
          (case files_btn_prepare ext p0 s of
             (s3, Some e) \<Rightarrow> (Raised e, s3)
           | (s3, None) \<Rightarrow> files_btn_try ext p0 (snd (os_path_split p0)) s3))"

text \<open>
  The guarded assignment \<^verbatim>\<open>io_model.file_name = f_name\<close> of a click: \<open>None\<close> when the
  click does not reach it, otherwise the model it leaves and the exception it raised, if any.
\<close>

definition files_btn_load :: "externals \<Rightarrow> string list \<Rightarrow> app \<Rightarrow> (io_model \<times> exn option) option" where
  "files_btn_load ext path s =
     (case path of
        [] \<Rightarrow> None
      | p0 # others \<Rightarrow>
          (case files_btn_prepare ext p0 s of
             (s3, Some e) \<Rightarrow> None
           | (s3, None) \<Rightarrow> Some (set_file_name ext (snd (os_path_split p0)) (io s3))))"

subsection \<open>\<^verbatim>\<open>load_btn\<close>: Load Data from Database\<close>

text \<open>The two assignments before the \<^verbatim>\<open>try\<close>.\<close>

definition load_btn_prepare :: "app \<Rightarrow> app" where
  "load_btn_prepare s =
     (let r = run_num_value (view s);
          s1 = assign_io (Set_runid r) (\<lambda>m. m\<lparr>runid := r\<rparr>) s
      in assign_io (Set_data_ready False) (\<lambda>m. m\<lparr>data_ready := False\<rparr>) s1)"

definition load_btn_except :: "externals \<Rightarrow> app \<Rightarrow> outcome \<times> app" where
  "load_btn_except ext s =
     finish (call_io Window_title_clear (window_title_clear ext)
               (emit (Critical ''ERROR'' (database_error_text (runid (io s)))) s))"

definition load_btn_else :: "externals \<Rightarrow> app \<Rightarrow> outcome \<times> app" where
  "load_btn_else ext s =
     (let s1 = in_view (\<lambda>w. w\<lparr>files_load_text :=
                 ''Scan #'' @ str_int (runid (io s)) @ '' from the database.''\<rparr>) s;
          s2 = in_plot (\<lambda>p. p\<lparr>plot_exp_opt := False\<rparr>) s1;
          s3 = in_view (\<lambda>w. w\<lparr>folder_btn_enabled := False\<rparr>) s2;
          s4 = in_plot (\<lambda>p. p\<lparr>plot_parameters := param_new (param s3)\<rparr>) s3;
          s5 = in_setting (\<lambda>g. g\<lparr>setting_parameters := param_new (param s4)\<rparr>) s4;
          s6 = in_setting (\<lambda>g. g\<lparr>setting_data_sets := data_sets (io s5)\<rparr>) s5;
          s7 = in_fit (\<lambda>f. f\<lparr>fit_data_sets := data_sets (io s6)\<rparr>) s6;
          s8 = in_fit (\<lambda>f. f\<lparr>fit_img := Map.empty\<rparr>) s7
      in finish (call_io (Window_title_set_run_id (runid (io s8)))
                   (window_title_set_run_id ext (runid (io s8))) s8))"

definition load_btn_try :: "externals \<Rightarrow> app \<Rightarrow> outcome \<times> app" where
  "load_btn_try ext s =
     (case call_io Load_data_runid (load_data_runid ext) s of
        (s1, Some e) \<Rightarrow> load_btn_except ext s1
      | (s1, None) \<Rightarrow> load_btn_else ext s1)"

text \<open>The handler: the \<^verbatim>\<open>try\<close> statement, then \<^verbatim>\<open>run_num.value = -1\<close>.\<close>

definition load_btn_clicked :: "externals \<Rightarrow> app \<Rightarrow> outcome \<times> app" where
  "load_btn_clicked ext s =
     (case load_btn_try ext (load_btn_prepare s) of
        (Raised e, s1) \<Rightarrow> (Raised e, s1)
      | (Done, s1) \<Rightarrow> (Done, in_view (\<lambda>w. w\<lparr>run_num_value := - 1\<rparr>) s1))"

text \<open>
  The call \<^verbatim>\<open>io_model.load_data_runid()\<close> of a click: the model it leaves and the
  exception it raised, if any.
\<close>

definition load_btn_load :: "externals \<Rightarrow> app \<Rightarrow> io_model \<times> exn option" where
  "load_btn_load ext s = load_data_runid ext (io (load_btn_prepare s))"

subsection \<open>\<^verbatim>\<open>cb_file_overwrite_existing\<close>: Overwrite Existing Files\<close>

text \<open>
  A button of a message box (\<^verbatim>\<open>DialogButton(text, action)\<close>); \<^verbatim>\<open>question\<close> returns the
  button clicked, or \<^verbatim>\<open>None\<close> when the box is closed without a click.
\<close>

record dialog_button =
  button_text :: string
  button_action :: string

text \<open>
  The checkbox is bound both ways to the model (\<^verbatim>\<open>checked := io_model.file_overwrite_existing\<close>).
  Its \<^verbatim>\<open>checked\<close> changes either because the user clicked it, and the binding then assigns
  the attribute of the model, or because the attribute of the model was assigned, and the
  binding then assigns \<^verbatim>\<open>checked\<close>. Either way both hold the new value when the handler
  \<^verbatim>\<open>checked ::\<close> starts.
\<close>

datatype change_origin = User_click | Model_change

definition set_overwrite_checked :: "bool \<Rightarrow> app \<Rightarrow> app" where
  "set_overwrite_checked b s =
     in_io (\<lambda>m. m\<lparr>file_overwrite_existing := b\<rparr>)
       (in_view (\<lambda>w. w\<lparr>cb_file_overwrite_existing_checked := b\<rparr>) s)"

text \<open>
  The assignment \<^verbatim>\<open>cb_file_overwrite_existing.checked = b\<close> made by the handler. After a
  click the binding writes it back to the model. While the binding is carrying a change of
  the model to the checkbox, the toolkit does not write back: the checkbox changes and the
  attribute of the model stays.
\<close>

definition assign_overwrite_checked :: "change_origin \<Rightarrow> bool \<Rightarrow> app \<Rightarrow> app" where
  "assign_overwrite_checked origin b s =
     (case origin of
        User_click \<Rightarrow> set_overwrite_checked b s
      | Model_change \<Rightarrow> in_view (\<lambda>w. w\<lparr>cb_file_overwrite_existing_checked := b\<rparr>) s)"

text \<open>
  The handler \<^verbatim>\<open>checked ::\<close>, run after \<^verbatim>\<open>checked\<close> has changed; \<open>origin\<close> tells how it
  changed and \<open>res\<close> is the answer to the question box. \<^verbatim>\<open>res.text\<close> raises
  \<^verbatim>\<open>AttributeError\<close> when \<open>res\<close> is \<^verbatim>\<open>None\<close>. The assignment \<^verbatim>\<open>checked = False\<close> in the
  handler lets it run again, with nothing to do since \<^verbatim>\<open>checked\<close> is then false.
\<close>

definition cb_file_overwrite_existing_changed ::
    "change_origin \<Rightarrow> dialog_button option \<Rightarrow> app \<Rightarrow> outcome \<times> app" where
  "cb_file_overwrite_existing_changed origin res s =
     (if cb_file_overwrite_existing_checked (view s)
      then
        (let s1 = emit (Question ''Warning'' overwrite_question_text) s
         in case res of
              None \<Rightarrow> (Raised AttributeError, s1)
            | Some b \<Rightarrow>
                (if button_text b = ''No'' then (Done, assign_overwrite_checked origin False s1)
                 else (Done, s1)))
      else (Done, s))"

subsection \<open>\<^verbatim>\<open>rb_1\<close> and \<^verbatim>\<open>rb_2\<close>: HIDE and SHOW of a channel\<close>

text \<open>
  The loop \<^verbatim>\<open>for v in io_model.file_channel_list\<close> that counts the channels whose
  \<^verbatim>\<open>plot_index\<close> is true (not zero); a channel without a data set raises \<^verbatim>\<open>KeyError\<close>.
\<close>

fun count_plots :: "(string \<rightharpoonup> data_set) \<Rightarrow> string list \<Rightarrow> nat \<Rightarrow> exn + nat" where
  "count_plots ds [] n_plots = Inr n_plots"
| "count_plots ds (v # vs) n_plots =
     (case ds v of
        None \<Rightarrow> Inl (KeyError v)
      | Some d \<Rightarrow> count_plots ds vs (if plot_index d \<noteq> 0 then n_plots + 1 else n_plots))"

text \<open>\<^verbatim>\<open>io_model.data_sets[loop_item].plot_index = v\<close>.\<close>

definition set_plot_index :: "string \<Rightarrow> int \<Rightarrow> app \<Rightarrow> exn + app" where
  "set_plot_index loop_item v s =
     (case data_sets (io s) loop_item of
        None \<Rightarrow> Inl (KeyError loop_item)
      | Some d \<Rightarrow>
          Inr (in_io (\<lambda>m. m\<lparr>data_sets := (data_sets m)(loop_item \<mapsto> d\<lparr>plot_index := v\<rparr>)\<rparr>) s))"

text \<open>\<^verbatim>\<open>rb_1.clicked\<close> (HIDE) of the group box of channel \<open>loop_item\<close>.\<close>

definition rb_1_clicked :: "externals \<Rightarrow> string \<Rightarrow> app \<Rightarrow> outcome \<times> app" where
  "rb_1_clicked ext loop_item s =
     (case set_plot_index loop_item 0 s of
        Inl e \<Rightarrow> (Raised e, s)
      | Inr s1 \<Rightarrow>
          (let s2 = in_plot (\<lambda>p. p\<lparr>plot_data_sets := data_sets (io s1)\<rparr>) s1
           in case call_plot Plot_multi_exp_data (plot_multi_exp_data ext) s2 of
                (s3, Some e) \<Rightarrow> (Raised e, s3)
              | (s3, None) \<Rightarrow>
                  (case count_plots (data_sets (io s3)) (file_channel_list (io s3)) 0 of
                     Inl e \<Rightarrow> (Raised e, s3)
                   | Inr n_plots \<Rightarrow>
                       (if n_plots = 0
                        then (Done, in_plot (\<lambda>p. p\<lparr>show_exp_opt := False\<rparr>) s3)
                        else (Done, s3)))))"

text \<open>\<^verbatim>\<open>rb_2.clicked\<close> (SHOW).\<close>

definition rb_2_clicked :: "externals \<Rightarrow> string \<Rightarrow> app \<Rightarrow> outcome \<times> app" where
  "rb_2_clicked ext loop_item s =
     (case set_plot_index loop_item 1 s of
        Inl e \<Rightarrow> (Raised e, s)
      | Inr s1 \<Rightarrow>
          (let s2 = in_plot (\<lambda>p. p\<lparr>plot_data_sets := data_sets (io s1)\<rparr>) s1
           in case call_plot Plot_multi_exp_data (plot_multi_exp_data ext) s2 of
                (s3, Some e) \<Rightarrow> (Raised e, s3)
              | (s3, None) \<Rightarrow> (Done, in_plot (\<lambda>p. p\<lparr>show_exp_opt := True\<rparr>) s3)))"

section \<open>Batch mode: \<^verbatim>\<open>examples/Batch_mode_fit.ipynb\<close>\<close>

subsection \<open>Values and the binding of the arguments of a call\<close>

datatype pyval =
    PyNone
  | PyBool bool
  | PyInt int
  | PyStr string
  | PyList "pyval list"

text \<open>
  The parameters of a function in order, each with its default value if it has one. A call
  binds the positional arguments to the first parameters and the keyword arguments by name;
  the parameters left over take their defaults. An argument too many, a keyword that names no
  parameter or one already bound, and a parameter without value raise \<^verbatim>\<open>TypeError\<close>.
\<close>

type_synonym signature = "(string \<times> pyval option) list"

fun bind_positional :: "signature \<Rightarrow> pyval list \<Rightarrow> exn + ((string \<times> pyval) list \<times> signature)" where
  "bind_positional sg [] = Inr ([], sg)"
| "bind_positional [] (a # as) = Inl TypeError"
| "bind_positional ((n, d) # sg) (a # as) =
     (case bind_positional sg as of
        Inl e \<Rightarrow> Inl e
      | Inr (bound, rest) \<Rightarrow> Inr ((n, a) # bound, rest))"

fun bind_keywords :: "signature \<Rightarrow> (string \<times> pyval) list \<Rightarrow> exn + (string \<times> pyval) list" where
  "bind_keywords [] kw = Inr []"
| "bind_keywords ((n, d) # sg) kw =
     (case (case map_of kw n of Some v \<Rightarrow> Some v | None \<Rightarrow> d) of
        None \<Rightarrow> Inl TypeError
      | Some v \<Rightarrow>
          (case bind_keywords sg kw of
             Inl e \<Rightarrow> Inl e
           | Inr bound \<Rightarrow> Inr ((n, v) # bound)))"

definition bind_call :: "signature \<Rightarrow> pyval list \<Rightarrow> (string \<times> pyval) list \<Rightarrow> exn + (string \<times> pyval) list" where
  "bind_call sg args kw =
     (case bind_positional sg args of
        Inl e \<Rightarrow> Inl e
      | Inr (bound, rest) \<Rightarrow>
          (if \<exists>k \<in> set (map fst kw). k \<notin> set (map fst rest) then Inl TypeError
           else
             (case bind_keywords rest kw of
                Inl e \<Rightarrow> Inl e
              | Inr bound' \<Rightarrow> Inr (bound @ bound'))))"

subsection \<open>\<^verbatim>\<open>fit_pixel_data_and_save\<close>\<close>

text \<open>
  Modelled from the spec: the function \<^verbatim>\<open>fit_pixel_data_and_save\<close> of
  \<^verbatim>\<open>pyxrf.model.command_tools\<close>, which the notebook imports and calls and whose code is not
  among the sources. Its signature is
  \<^verbatim>\<open>fit_pixel_data_and_save(working_dir, file_name, param_file_name, fit_channel_each=False,
  param_channel_list=None, save_txt=False, save_tiff=True, incident_energy=None)\<close>.
\<close>

definition fit_pixel_data_and_save_signature :: signature where
  "fit_pixel_data_and_save_signature =
     [(''working_dir'', None),
      (''file_name'', None),
      (''param_file_name'', None),
      (''fit_channel_each'', Some (PyBool False)),
      (''param_channel_list'', Some PyNone),
      (''save_txt'', Some (PyBool False)),
      (''save_tiff'', Some (PyBool True)),
      (''incident_energy'', Some PyNone)]"

text \<open>Truth of a value where Python tests it.\<close>

fun truthy :: "pyval \<Rightarrow> bool" where
  "truthy PyNone = False"
| "truthy (PyBool b) = b"
| "truthy (PyInt i) = (i \<noteq> 0)"
| "truthy (PyStr t) = (t \<noteq> [])"
| "truthy (PyList vs) = (vs \<noteq> [])"

text \<open>
  Modelled from the spec: what a run of \<^verbatim>\<open>fit_pixel_data_and_save\<close> does, as far as the spec
  says it: it "fits summed or per-channel spectra for a scan file using a named JSON
  parameter file, optionally overriding incident energy, and optionally persisting
  text/image outputs". The fit itself is not described and not modelled.
\<close>

datatype spectra = Summed | Each_channel

datatype energy = From_parameter_file | Override pyval

record batch_run =
  scan_directory :: pyval
  scan_file :: pyval
  parameter_file :: pyval
  fitted :: spectra
  channel_parameter_files :: pyval
  incident_energy_used :: energy
  writes_txt :: bool
  writes_tiff :: bool

definition fit_pixel_data_and_save ::
    "pyval \<Rightarrow> pyval \<Rightarrow> pyval \<Rightarrow> pyval \<Rightarrow> pyval \<Rightarrow> pyval \<Rightarrow> pyval \<Rightarrow> pyval \<Rightarrow> batch_run" where
  "fit_pixel_data_and_save working_dir scan_name param_file_name fit_channel_each
       param_channel_list save_txt save_tiff incident_energy =
     \<lparr>scan_directory = working_dir,
      scan_file = scan_name,
      parameter_file = param_file_name,
      fitted = (if truthy fit_channel_each then Each_channel else Summed),
      channel_parameter_files = param_channel_list,
      incident_energy_used =
        (if incident_energy = PyNone then From_parameter_file else Override incident_energy),
      writes_txt = truthy save_txt,
      writes_tiff = truthy save_tiff\<rparr>"

text \<open>A call of the function: the arguments are bound to the signature, then it runs.\<close>

fun run_bound :: "(string \<times> pyval) list \<Rightarrow> exn + batch_run" where
  "run_bound [(n1, a1), (n2, a2), (n3, a3), (n4, a4), (n5, a5), (n6, a6), (n7, a7), (n8, a8)] =
     Inr (fit_pixel_data_and_save a1 a2 a3 a4 a5 a6 a7 a8)"
| "run_bound bound = Inl TypeError"

definition call_fit_pixel_data_and_save :: "pyval list \<Rightarrow> (string \<times> pyval) list \<Rightarrow> exn + batch_run" where
  "call_fit_pixel_data_and_save args kw =
     (case bind_call fit_pixel_data_and_save_signature args kw of
        Inl e \<Rightarrow> Inl e
      | Inr bound \<Rightarrow> run_bound bound)"

subsection \<open>The calls of the notebook\<close>

text \<open>\<^verbatim>\<open>fit_pixel_data_and_save(wd, fname, param_file_name=param_file)\<close>\<close>

definition notebook_fit_sum :: "string \<Rightarrow> string \<Rightarrow> string \<Rightarrow> exn + batch_run" where
  "notebook_fit_sum wd fname param_file =
     call_fit_pixel_data_and_save [PyStr wd, PyStr fname]
       [(''param_file_name'', PyStr param_file)]"

text \<open>
  \<^verbatim>\<open>fit_pixel_data_and_save(wd, fname, param_file_name=param_file, fit_channel_each=True,
  param_channel_list=paramlist, save_txt=True, save_tiff=True)\<close>
\<close>

definition notebook_fit_each :: "string \<Rightarrow> string \<Rightarrow> string \<Rightarrow> string list \<Rightarrow> exn + batch_run" where
  "notebook_fit_each wd fname param_file paramlist =
     call_fit_pixel_data_and_save [PyStr wd, PyStr fname]
       [(''param_file_name'', PyStr param_file),
        (''fit_channel_each'', PyBool True),
        (''param_channel_list'', PyList (map PyStr paramlist)),
        (''save_txt'', PyBool True),
        (''save_tiff'', PyBool True)]"

text \<open>\<^verbatim>\<open>fit_pixel_data_and_save(wd, fname, param_file_name=param_file, incident_energy=energy)\<close>\<close>

definition notebook_fit_energy :: "string \<Rightarrow> string \<Rightarrow> string \<Rightarrow> pyval \<Rightarrow> exn + batch_run" where
  "notebook_fit_energy wd fname param_file energy =
     call_fit_pixel_data_and_save [PyStr wd, PyStr fname]
       [(''param_file_name'', PyStr param_file),
        (''incident_energy'', energy)]"

section \<open>Sample states\<close>

text \<open>
  A state of the application right after start, with no data loaded, and code of the models
  that accepts one file name and one run number. The theorems below are tried on them.
\<close>

definition example_io :: io_model where
  "example_io =
     \<lparr>working_directory = ''/data'', file_name = [], data_ready = False, runid = - 1,
      file_channel_list = [], data_sets = Map.empty, incident_energy_available = False,
      file_overwrite_existing = False, mask_opt = 0, mask_name = []\<rparr>"

definition example_app :: app where
  "example_app =
     \<lparr>io = example_io,
      param = \<lparr>param_new = 7\<rparr>,
      plot = \<lparr>plot_parameters = 0, plot_data_sets = Map.empty, plot_exp_opt = True,
              show_exp_opt = True\<rparr>,
      setting = \<lparr>setting_parameters = 0, setting_data_sets = Map.empty\<rparr>,
      fit = \<lparr>fit_data_sets = Map.empty, fit_img = [''Fe_K'' \<mapsto> 3]\<rparr>,
      view = \<lparr>files_load_text = ''No data is loaded.'', folder_btn_enabled = True,
              run_num_value = - 1, cb_file_overwrite_existing_checked = False,
              rb_pos_checked = False, rb_file_checked = False, rb_nomask_checked = True,
              mask_load_note_text = ''No file is loaded.'', mask_view_visible = False\<rparr>,
      events = []\<rparr>"

definition example_scan :: "io_model \<Rightarrow> io_model" where
  "example_scan m =
     m\<lparr>file_channel_list := [''sum'', ''det1''],
       data_sets := [''sum'' \<mapsto> \<lparr>plot_index = 1\<rparr>, ''det1'' \<mapsto> \<lparr>plot_index = 0\<rparr>],
       incident_energy_available := True\<rparr>"

definition example_externals :: externals where
  "example_externals =
     \<lparr>set_file_name = (\<lambda>v m.
        if v = ''temp'' then (m\<lparr>file_name := v\<rparr>, None)
        else if v = ''scan_2468.h5'' then (example_scan (m\<lparr>file_name := v\<rparr>), None)
        else (m\<lparr>file_name := v\<rparr>, Some (ModelError ''not a PyXRF file''))),
      load_data_runid = (\<lambda>m.
        if runid m = 2468 then (example_scan m, None)
        else (m, Some (ModelError ''run not found''))),
      window_title_clear = (\<lambda>m. (m, None)),
      window_title_set_file_name = (\<lambda>v m. (m, None)),
      window_title_set_run_id = (\<lambda>r m. (m, None)),
      apply_mask = (\<lambda>m. (m, None)),
      plot_multi_exp_data = (\<lambda>p. (p, None)),
      sep_v = ''/''\<rparr>"

text \<open>The same state with a run number typed into the field \<^verbatim>\<open>run_num\<close>.\<close>

definition example_app_run :: "int \<Rightarrow> app" where
  "example_app_run r = in_view (\<lambda>w. w\<lparr>run_num_value := r\<rparr>) example_app"

text \<open>The state after the sample scan was loaded.\<close>

definition example_loaded :: app where
  "example_loaded = in_io example_scan example_app"

section \<open>Properties\<close>

subsection \<open>Auxiliary facts\<close>

text \<open>The events a handler added to those recorded before it ran.\<close>

definition emitted :: "app \<Rightarrow> app \<Rightarrow> event list" where
  "emitted s s' = drop (length (events s)) (events s')"

lemma emit_sel [simp]:
  "io (emit ev s) = io s" "param (emit ev s) = param s" "plot (emit ev s) = plot s"
  "setting (emit ev s) = setting s" "fit (emit ev s) = fit s" "view (emit ev s) = view s"
  "events (emit ev s) = events s @ [ev]"
  by (simp_all add: emit_def)

lemma in_io_sel [simp]:
  "io (in_io f s) = f (io s)" "param (in_io f s) = param s" "plot (in_io f s) = plot s"
  "setting (in_io f s) = setting s" "fit (in_io f s) = fit s" "view (in_io f s) = view s"
  "events (in_io f s) = events s"
  by (simp_all add: in_io_def)

lemma in_plot_sel [simp]:
  "io (in_plot f s) = io s" "param (in_plot f s) = param s" "plot (in_plot f s) = f (plot s)"
  "setting (in_plot f s) = setting s" "fit (in_plot f s) = fit s" "view (in_plot f s) = view s"
  "events (in_plot f s) = events s"
  by (simp_all add: in_plot_def)

lemma in_setting_sel [simp]:
  "io (in_setting f s) = io s" "param (in_setting f s) = param s" "plot (in_setting f s) = plot s"
  "setting (in_setting f s) = f (setting s)" "fit (in_setting f s) = fit s"
  "view (in_setting f s) = view s" "events (in_setting f s) = events s"
  by (simp_all add: in_setting_def)

lemma in_fit_sel [simp]:
  "io (in_fit f s) = io s" "param (in_fit f s) = param s" "plot (in_fit f s) = plot s"
  "setting (in_fit f s) = setting s" "fit (in_fit f s) = f (fit s)" "view (in_fit f s) = view s"
  "events (in_fit f s) = events s"
  by (simp_all add: in_fit_def)

lemma in_view_sel [simp]:
  "io (in_view f s) = io s" "param (in_view f s) = param s" "plot (in_view f s) = plot s"
  "setting (in_view f s) = setting s" "fit (in_view f s) = fit s" "view (in_view f s) = f (view s)"
  "events (in_view f s) = events s"
  by (simp_all add: in_view_def)

lemma finish_sel [simp]:
  "snd (finish p) = fst p"
  "fst (finish p) = (case snd p of None \<Rightarrow> Done | Some e \<Rightarrow> Raised e)"
  by (simp_all add: finish_def split: prod.splits option.splits)

lemmas call_defs = assign_io_def call_io_def call_plot_def

lemma handler_of_pair:
  "(case p of (Raised e, s1) \<Rightarrow> f e s1 | (Done, s1) \<Rightarrow> g s1)
    = (case fst p of Done \<Rightarrow> g (snd p) | Raised e \<Rightarrow> f e (snd p))"
  by (cases p) (simp split: outcome.splits)

lemma call_of_pair:
  "(case p of (s1, Some e) \<Rightarrow> f e s1 | (s1, None) \<Rightarrow> g s1)
    = (case snd p of None \<Rightarrow> g (fst p) | Some e \<Rightarrow> f e (fst p))"
  by (cases p) (simp split: option.splits)

subsection \<open>The blocks of \<^verbatim>\<open>files_btn.clicked\<close>\<close>

lemma files_btn_except_events:
  "events (snd (files_btn_except ext p0 s)) =
     events s @ [Critical ''ERROR'' (incorrect_format_text p0), Window_title_clear]"
  by (simp add: files_btn_except_def call_defs)

lemma files_btn_else_events:
  "events (snd (files_btn_else ext f s)) =
     events s @ Window_title_set_file_name f #
       (if fst (files_btn_else ext f s) = Done
           \<and> \<not> incident_energy_available (io (snd (files_btn_else ext f s)))
        then [Warning ''Warning'' incident_energy_text] else [])"
  by (simp add: files_btn_else_def call_defs Let_def split: option.splits)

lemma files_btn_try_events:
  "events (snd (files_btn_try ext p0 f s)) =
     events s @ Set_file_name f #
       (case snd (set_file_name ext f (io s)) of
          Some e \<Rightarrow> [Critical ''ERROR'' (incorrect_format_text p0), Window_title_clear]
        | None \<Rightarrow> Window_title_set_file_name f #
            (if fst (files_btn_try ext p0 f s) = Done
                \<and> \<not> incident_energy_available (io (snd (files_btn_try ext p0 f s)))
             then [Warning ''Warning'' incident_energy_text] else []))"
  by (simp add: files_btn_try_def call_defs files_btn_except_events files_btn_else_events
        split: option.splits)


lemma files_btn_except_models:
  "plot (snd (files_btn_except ext p0 s)) = plot s"
  "setting (snd (files_btn_except ext p0 s)) = setting s"
  "fit (snd (files_btn_except ext p0 s)) = fit s"
  "view (snd (files_btn_except ext p0 s)) = view s"
  by (simp_all add: files_btn_except_def call_defs)

lemma files_btn_else_models:
  "plot (snd (files_btn_else ext f s)) = (plot s)\<lparr>plot_parameters := param_new (param s)\<rparr>"
  "setting (snd (files_btn_else ext f s)) =
     (setting s)\<lparr>setting_parameters := param_new (param s), setting_data_sets := data_sets (io s)\<rparr>"
  "fit (snd (files_btn_else ext f s)) =
     (fit s)\<lparr>fit_data_sets := data_sets (io s), fit_img := Map.empty\<rparr>"
  "view (snd (files_btn_else ext f s)) =
     (view s)\<lparr>files_load_text := file_name (io s) @ '' is loaded.'', folder_btn_enabled := False\<rparr>"
  by (simp_all add: files_btn_else_def call_defs Let_def split: option.splits)

lemma files_btn_prepare_models:
  "plot (fst (files_btn_prepare ext p0 s)) = plot s"
  "setting (fst (files_btn_prepare ext p0 s)) = setting s"
  "fit (fst (files_btn_prepare ext p0 s)) = fit s"
  "view (fst (files_btn_prepare ext p0 s)) = view s"
  "param (fst (files_btn_prepare ext p0 s)) = param s"
  by (simp_all add: files_btn_prepare_def call_defs Let_def split: option.splits)

lemma files_btn_prepare_events:
  "events (fst (files_btn_prepare ext p0 s)) =
     events s @ Set_data_ready False # Set_file_name ''temp'' #
       (case snd (files_btn_prepare ext p0 s) of
          None \<Rightarrow> [Set_working_directory (fst (os_path_split p0))]
        | Some e \<Rightarrow> [])"
  by (simp add: files_btn_prepare_def call_defs Let_def split: option.splits)

lemma files_btn_prepare_raises:
  "snd (files_btn_prepare ext p0 s) = snd (set_file_name ext ''temp'' ((io s)\<lparr>data_ready := False\<rparr>))"
  by (simp add: files_btn_prepare_def call_defs Let_def split: option.splits)

lemma files_btn_clicked_cons:
  "files_btn_clicked ext (p0 # others) s =
     (case snd (files_btn_prepare ext p0 s) of
        Some e \<Rightarrow> (Raised e, fst (files_btn_prepare ext p0 s))
      | None \<Rightarrow> files_btn_try ext p0 (snd (os_path_split p0)) (fst (files_btn_prepare ext p0 s)))"
  by (simp add: files_btn_clicked_def call_of_pair)

lemma files_btn_load_cons:
  "files_btn_load ext (p0 # others) s =
     (case snd (files_btn_prepare ext p0 s) of
        Some e \<Rightarrow> None
      | None \<Rightarrow> Some (set_file_name ext (snd (os_path_split p0)) (io (fst (files_btn_prepare ext p0 s)))))"
  by (simp add: files_btn_load_def call_of_pair)

lemma files_btn_try_models:
  "snd (set_file_name ext f (io s)) = Some e \<Longrightarrow> plot (snd (files_btn_try ext p0 f s)) = plot s"
  "snd (set_file_name ext f (io s)) = Some e \<Longrightarrow> setting (snd (files_btn_try ext p0 f s)) = setting s"
  "snd (set_file_name ext f (io s)) = Some e \<Longrightarrow> fit (snd (files_btn_try ext p0 f s)) = fit s"
  "snd (set_file_name ext f (io s)) = None \<Longrightarrow>
     plot (snd (files_btn_try ext p0 f s)) = (plot s)\<lparr>plot_parameters := param_new (param s)\<rparr>"
  "snd (set_file_name ext f (io s)) = None \<Longrightarrow>
     setting (snd (files_btn_try ext p0 f s)) =
       (setting s)\<lparr>setting_parameters := param_new (param s),
                    setting_data_sets := data_sets (fst (set_file_name ext f (io s)))\<rparr>"
  "snd (set_file_name ext f (io s)) = None \<Longrightarrow>
     fit (snd (files_btn_try ext p0 f s)) =
       (fit s)\<lparr>fit_data_sets := data_sets (fst (set_file_name ext f (io s))), fit_img := Map.empty\<rparr>"
  "snd (set_file_name ext f (io s)) = None \<Longrightarrow>
     view (snd (files_btn_try ext p0 f s)) =
       (view s)\<lparr>files_load_text := file_name (fst (set_file_name ext f (io s))) @ '' is loaded.'',
                 folder_btn_enabled := False\<rparr>"
  by (simp_all add: files_btn_try_def call_defs files_btn_except_models files_btn_else_models)


lemma files_btn_unchanged_without_load:
  assumes "\<forall>m. files_btn_load ext path s \<noteq> Some (m, None)"
  shows "plot (snd (files_btn_clicked ext path s)) = plot s
      \<and> setting (snd (files_btn_clicked ext path s)) = setting s
      \<and> fit (snd (files_btn_clicked ext path s)) = fit s"
proof (cases path)
  case Nil
  then show ?thesis by (simp add: files_btn_clicked_def)
next
  case (Cons p0 others)
  show ?thesis
  proof (cases "snd (files_btn_prepare ext p0 s)")
    case None
    then show ?thesis
      using Cons assms
      by (cases "set_file_name ext (snd (os_path_split p0)) (io (fst (files_btn_prepare ext p0 s)))")
         (auto simp: files_btn_clicked_cons files_btn_load_cons files_btn_try_models
            files_btn_prepare_models)
  next
    case (Some e)
    then show ?thesis
      using Cons by (simp add: files_btn_clicked_cons files_btn_prepare_models)
  qed
qed

lemma files_btn_updated_by_load:
  assumes "files_btn_load ext path s = Some (m, None)"
  shows "plot (snd (files_btn_clicked ext path s)) = (plot s)\<lparr>plot_parameters := param_new (param s)\<rparr>
      \<and> setting (snd (files_btn_clicked ext path s)) =
           (setting s)\<lparr>setting_parameters := param_new (param s), setting_data_sets := data_sets m\<rparr>
      \<and> fit (snd (files_btn_clicked ext path s)) =
           (fit s)\<lparr>fit_data_sets := data_sets m, fit_img := Map.empty\<rparr>
      \<and> view (snd (files_btn_clicked ext path s)) =
           (view s)\<lparr>files_load_text := file_name m @ '' is loaded.'', folder_btn_enabled := False\<rparr>"
proof (cases path)
  case Nil
  then show ?thesis using assms by (simp add: files_btn_load_def)
next
  case (Cons p0 others)
  show ?thesis
  proof (cases "snd (files_btn_prepare ext p0 s)")
    case None
    then show ?thesis
      using Cons assms
      by (cases "set_file_name ext (snd (os_path_split p0)) (io (fst (files_btn_prepare ext p0 s)))")
         (auto simp: files_btn_clicked_cons files_btn_load_cons files_btn_try_models
            files_btn_prepare_models)
  next
    case (Some e)
    then show ?thesis
      using Cons assms by (simp add: files_btn_load_cons)
  qed
qed


lemma example_load_fails:
  "files_btn_load example_externals [''/data/run/notes.txt'', ''/data/run/scan_2468.h5''] example_app
     = Some (example_io\<lparr>data_ready := False, working_directory := ''/data/run'',
               file_name := ''notes.txt''\<rparr>, Some (ModelError ''not a PyXRF file''))"
  by (simp add: files_btn_load_cons files_btn_prepare_def call_defs Let_def example_externals_def
        example_app_def os_path_split_def)

lemma example_load_succeeds:
  "files_btn_load example_externals [''/data/run/scan_2468.h5'', ''/data/run/notes.txt''] example_app
     = Some (example_scan (example_io\<lparr>data_ready := False, working_directory := ''/data/run'',
               file_name := ''scan_2468.h5''\<rparr>), None)"
  by (simp add: files_btn_load_cons files_btn_prepare_def call_defs Let_def example_externals_def
        example_app_def os_path_split_def)

subsection \<open>Loading a file updates the other models only after it succeeded\<close>

text \<open>
  C1. In the handler of "Load Data File", \<^verbatim>\<open>plot_model.parameters\<close>,
  \<^verbatim>\<open>setting_model.parameters\<close>, \<^verbatim>\<open>setting_model.data_sets\<close>, \<^verbatim>\<open>fit_model.data_sets\<close> and
  \<^verbatim>\<open>fit_model.fit_img\<close> are assigned only after the assignment \<^verbatim>\<open>io_model.file_name = f_name\<close>
  has returned without raising. Unless the click reaches that assignment and it succeeds,
  the plot, setting and fit models are after the click what they were before it; in
  particular when the assignment raises. When it succeeds and leaves the model \<open>m\<close>, the five
  attributes hold \<^verbatim>\<open>param_model.param_new\<close>, the data sets of \<open>m\<close>, and the empty dictionary.
\<close>

theorem dependent_models_updated_after_load:
  "((\<forall>m. files_btn_load ext path s \<noteq> Some (m, None)) \<longrightarrow>
      plot (snd (files_btn_clicked ext path s)) = plot s
      \<and> setting (snd (files_btn_clicked ext path s)) = setting s
      \<and> fit (snd (files_btn_clicked ext path s)) = fit s)
   \<and> (\<forall>m. files_btn_load ext path s = Some (m, None) \<longrightarrow>
      plot (snd (files_btn_clicked ext path s)) = (plot s)\<lparr>plot_parameters := param_new (param s)\<rparr>
      \<and> setting (snd (files_btn_clicked ext path s)) =
           (setting s)\<lparr>setting_parameters := param_new (param s), setting_data_sets := data_sets m\<rparr>
      \<and> fit (snd (files_btn_clicked ext path s)) =
           (fit s)\<lparr>fit_data_sets := data_sets m, fit_img := Map.empty\<rparr>)"
  using files_btn_unchanged_without_load [of ext path s] files_btn_updated_by_load [of ext path s]
  by blast

theorem dependent_models_updated_after_load_witness:
  "(\<forall>m. files_btn_load example_externals [''/data/run/notes.txt'', ''/data/run/scan_2468.h5'']
           example_app \<noteq> Some (m, None))
   \<and> fit (snd (files_btn_clicked example_externals
                  [''/data/run/notes.txt'', ''/data/run/scan_2468.h5''] example_app))
       = \<lparr>fit_data_sets = Map.empty, fit_img = [''Fe_K'' \<mapsto> 3]\<rparr>
   \<and> fit (snd (files_btn_clicked example_externals
                  [''/data/run/scan_2468.h5'', ''/data/run/notes.txt''] example_app))
       = \<lparr>fit_data_sets = [''sum'' \<mapsto> \<lparr>plot_index = 1\<rparr>, ''det1'' \<mapsto> \<lparr>plot_index = 0\<rparr>],
          fit_img = Map.empty\<rparr>"
proof -
  have bad: "\<forall>m. files_btn_load example_externals
      [''/data/run/notes.txt'', ''/data/run/scan_2468.h5''] example_app \<noteq> Some (m, None)"
    by (simp add: example_load_fails)
  with dependent_models_updated_after_load [of example_externals
      "[''/data/run/notes.txt'', ''/data/run/scan_2468.h5'']" example_app]
  have 1: "fit (snd (files_btn_clicked example_externals
      [''/data/run/notes.txt'', ''/data/run/scan_2468.h5''] example_app)) = fit example_app"
    by blast
  from dependent_models_updated_after_load [of example_externals
      "[''/data/run/scan_2468.h5'', ''/data/run/notes.txt'']" example_app] example_load_succeeds
  have 2: "fit (snd (files_btn_clicked example_externals
      [''/data/run/scan_2468.h5'', ''/data/run/notes.txt''] example_app)) =
        (fit example_app)\<lparr>fit_data_sets := data_sets (example_scan (example_io\<lparr>data_ready := False,
           working_directory := ''/data/run'', file_name := ''scan_2468.h5''\<rparr>)),
          fit_img := Map.empty\<rparr>"
    by blast
  show ?thesis
    using bad 1 2 by (simp add: example_app_def example_scan_def)
qed

subsection \<open>The run number is reset after a load from the database\<close>

lemma load_btn_try_outcome:
  "fst (load_btn_try ext s) =
     (case snd (load_data_runid ext (io s)) of
        Some e \<Rightarrow>
          (case snd (window_title_clear ext (fst (load_data_runid ext (io s)))) of
             None \<Rightarrow> Done | Some e' \<Rightarrow> Raised e')
      | None \<Rightarrow>
          (case snd (window_title_set_run_id ext (runid (fst (load_data_runid ext (io s))))
                      (fst (load_data_runid ext (io s)))) of
             None \<Rightarrow> Done | Some e' \<Rightarrow> Raised e'))"
  by (simp add: load_btn_try_def load_btn_except_def load_btn_else_def Let_def call_defs
        split: option.splits)

text \<open>
  C3. When the handler of "Load Data from Database" completes, \<^verbatim>\<open>run_num.value\<close> is \<open>-1\<close>,
  whether \<^verbatim>\<open>io_model.load_data_runid()\<close> returned or raised. The handler completes whenever
  the two methods that set the window title return.
\<close>

theorem run_num_reset:
  "(fst (load_btn_clicked ext s) = Done \<longrightarrow>
      run_num_value (view (snd (load_btn_clicked ext s))) = - 1)
   \<and> ((\<forall>m. snd (window_title_clear ext m) = None)
        \<and> (\<forall>r m. snd (window_title_set_run_id ext r m) = None)
        \<longrightarrow> fst (load_btn_clicked ext s) = Done)"
proof (intro conjI impI)
  assume "fst (load_btn_clicked ext s) = Done"
  then show "run_num_value (view (snd (load_btn_clicked ext s))) = - 1"
    by (simp add: load_btn_clicked_def handler_of_pair split: outcome.splits)
next
  assume "(\<forall>m. snd (window_title_clear ext m) = None)
        \<and> (\<forall>r m. snd (window_title_set_run_id ext r m) = None)"
  then have "fst (load_btn_try ext (load_btn_prepare s)) = Done"
    by (simp add: load_btn_try_outcome split: option.splits)
  then show "fst (load_btn_clicked ext s) = Done"
    by (simp add: load_btn_clicked_def handler_of_pair)
qed

text \<open>The run 12 is not in the sample database, the run 2468 is.\<close>

theorem run_num_reset_witness:
  "snd (load_btn_load example_externals (example_app_run 12)) \<noteq> None
   \<and> fst (load_btn_clicked example_externals (example_app_run 12)) = Done
   \<and> run_num_value (view (snd (load_btn_clicked example_externals (example_app_run 12)))) = - 1
   \<and> snd (load_btn_load example_externals (example_app_run 2468)) = None
   \<and> fst (load_btn_clicked example_externals (example_app_run 2468)) = Done
   \<and> run_num_value (view (snd (load_btn_clicked example_externals (example_app_run 2468)))) = - 1"
  using run_num_reset [of example_externals "example_app_run 12"]
    run_num_reset [of example_externals "example_app_run 2468"]
  by (simp add: example_externals_def load_btn_load_def load_btn_prepare_def example_app_run_def
        example_app_def example_io_def call_defs)

subsection \<open>The mask mode is one of three values\<close>

text \<open>
  C5. Every value that a handler of the mask view assigns to \<^verbatim>\<open>io_model.mask_opt\<close> is 0, 1
  or 2 (only the radio buttons assign it). So a click in the mask view keeps \<^verbatim>\<open>mask_opt\<close>
  among 0, 1 and 2, as long as \<^verbatim>\<open>io_model.apply_mask()\<close>, which the Save button calls and
  whose code belongs to the model, keeps it there.
\<close>

theorem mask_opt_three_way:
  "set (mask_opt_writes (emitted s (snd (mask_view_step ext ev s)))) \<subseteq> {0, 1, 2}
   \<and> (mask_opt (io s) \<in> {0, 1, 2}
        \<longrightarrow> (\<forall>m. mask_opt m \<in> {0, 1, 2} \<longrightarrow> mask_opt (fst (apply_mask ext m)) \<in> {0, 1, 2})
        \<longrightarrow> mask_opt (io (snd (mask_view_step ext ev s))) \<in> {0, 1, 2})"
  by (cases ev)
     (auto simp: emitted_def call_defs rb_pos_clicked_def rb_file_clicked_def rb_nomask_clicked_def
        mask_btn_clicked_def save_btn_clicked_def Let_def
        split: option.splits sum.splits)

theorem mask_opt_three_way_witness:
  "mask_opt (io example_app) \<in> {0, 1, 2}
   \<and> (\<forall>m. mask_opt (fst (apply_mask example_externals m)) = mask_opt m)
   \<and> mask_opt (io (snd (mask_view_step example_externals Click_save_btn example_app))) \<in> {0, 1, 2}
   \<and> mask_opt (io (snd (mask_view_step example_externals Click_rb_file
          (in_view (\<lambda>w. w\<lparr>rb_file_checked := True, rb_nomask_checked := False\<rparr>) example_app)))) = 2"
proof -
  have 1: "mask_opt (io example_app) \<in> {0, 1, 2}"
    by (simp add: example_app_def example_io_def)
  have 2: "\<forall>m. mask_opt (fst (apply_mask example_externals m)) = mask_opt m"
    by (simp add: example_externals_def)
  from 2 have "\<forall>m. mask_opt m \<in> {0, 1, 2}
      \<longrightarrow> mask_opt (fst (apply_mask example_externals m)) \<in> {0, 1, 2}"
    by simp
  with mask_opt_three_way [of example_app example_externals Click_save_btn] 1
  have 3: "mask_opt (io (snd (mask_view_step example_externals Click_save_btn example_app))) \<in> {0, 1, 2}"
    by blast
  have 4: "mask_opt (io (snd (mask_view_step example_externals Click_rb_file
          (in_view (\<lambda>w. w\<lparr>rb_file_checked := True, rb_nomask_checked := False\<rparr>) example_app)))) = 2"
    by (simp add: rb_file_clicked_def call_defs)
  show ?thesis using 1 2 3 4 by simp
qed

subsection \<open>A failed load is reported\<close>

lemma files_btn_clicked_emitted:
  "emitted s (snd (files_btn_clicked ext (p0 # others) s)) =
     Set_data_ready False # Set_file_name ''temp'' #
       (case snd (files_btn_prepare ext p0 s) of
          Some e \<Rightarrow> []
        | None \<Rightarrow>
            Set_working_directory (fst (os_path_split p0)) # Set_file_name (snd (os_path_split p0)) #
              (case files_btn_load ext (p0 # others) s of
                 Some (m, Some e) \<Rightarrow>
                   [Critical ''ERROR'' (incorrect_format_text p0), Window_title_clear]
               | Some (m, None) \<Rightarrow>
                   Window_title_set_file_name (snd (os_path_split p0)) #
                     (if fst (files_btn_clicked ext (p0 # others) s) = Done
                         \<and> \<not> incident_energy_available (io (snd (files_btn_clicked ext (p0 # others) s)))
                      then [Warning ''Warning'' incident_energy_text] else [])
               | None \<Rightarrow> []))"
proof (cases "snd (files_btn_prepare ext p0 s)")
  case None
  then show ?thesis
    by (cases "set_file_name ext (snd (os_path_split p0)) (io (fst (files_btn_prepare ext p0 s)))")
       (simp add: emitted_def files_btn_clicked_cons files_btn_load_cons files_btn_try_events
          files_btn_prepare_events split: option.splits)
next
  case (Some e)
  then show ?thesis
    by (simp add: emitted_def files_btn_clicked_cons files_btn_prepare_events)
qed

lemma files_btn_clicked_nil: "files_btn_clicked ext [] s = (Done, s)"
  by (simp add: files_btn_clicked_def)

lemma load_btn_clicked_emitted:
  "emitted s (snd (load_btn_clicked ext s)) =
     Set_runid (run_num_value (view s)) # Set_data_ready False # Load_data_runid #
       (case snd (load_btn_load ext s) of
          Some e \<Rightarrow>
            [Critical ''ERROR'' (database_error_text (runid (fst (load_btn_load ext s)))),
             Window_title_clear]
        | None \<Rightarrow> [Window_title_set_run_id (runid (fst (load_btn_load ext s)))])"
  by (simp add: emitted_def load_btn_clicked_def handler_of_pair load_btn_try_def
        load_btn_except_def load_btn_else_def load_btn_load_def load_btn_prepare_def call_defs
        Let_def split: option.splits outcome.splits)


lemma files_btn_failure_events:
  "((\<exists>title msg. Critical title msg \<in> set (emitted s (snd (files_btn_clicked ext path s))))
      \<longleftrightarrow> (\<exists>m e. files_btn_load ext path s = Some (m, Some e)))
   \<and> (Window_title_clear \<in> set (emitted s (snd (files_btn_clicked ext path s)))
      \<longleftrightarrow> (\<exists>m e. files_btn_load ext path s = Some (m, Some e)))"
proof (cases path)
  case Nil
  then show ?thesis by (simp add: files_btn_clicked_nil files_btn_load_def emitted_def)
next
  case (Cons p0 others)
  show ?thesis
  proof (cases "files_btn_load ext (p0 # others) s")
    case None
    then show ?thesis
      using Cons by (simp add: files_btn_clicked_emitted split: option.splits)
  next
    case (Some r)
    then obtain m x where r: "files_btn_load ext (p0 # others) s = Some (m, x)"
      by (cases r) simp
    then have "snd (files_btn_prepare ext p0 s) = None"
      by (simp add: files_btn_load_cons split: option.splits)
    with r show ?thesis
      using Cons by (cases x) (simp_all add: files_btn_clicked_emitted)
  qed
qed

lemma load_btn_failure_events:
  "((\<exists>title msg. Critical title msg \<in> set (emitted s (snd (load_btn_clicked ext s))))
      \<longleftrightarrow> (\<exists>e. snd (load_btn_load ext s) = Some e))
   \<and> (Window_title_clear \<in> set (emitted s (snd (load_btn_clicked ext s)))
      \<longleftrightarrow> (\<exists>e. snd (load_btn_load ext s) = Some e))"
  by (cases "snd (load_btn_load ext s)") (simp_all add: load_btn_clicked_emitted)

text \<open>
  C2. A click on "Load Data File" or on "Load Data from Database" opens a critical message
  box exactly when the load it attempts (the guarded assignment of \<^verbatim>\<open>io_model.file_name\<close>,
  or \<^verbatim>\<open>io_model.load_data_runid()\<close>) raises, and exactly then it calls
  \<^verbatim>\<open>io_model.window_title_clear()\<close>. A click that attempts no load (the file dialog was
  cancelled, or the assignment of \<^verbatim>\<open>'temp'\<close> raised) does neither.
\<close>

theorem load_failure_dialog:
  "((\<exists>title msg. Critical title msg \<in> set (emitted s (snd (files_btn_clicked ext path s))))
      \<longleftrightarrow> (\<exists>m e. files_btn_load ext path s = Some (m, Some e)))
   \<and> (Window_title_clear \<in> set (emitted s (snd (files_btn_clicked ext path s)))
      \<longleftrightarrow> (\<exists>m e. files_btn_load ext path s = Some (m, Some e)))
   \<and> ((\<exists>title msg. Critical title msg \<in> set (emitted s (snd (load_btn_clicked ext s))))
      \<longleftrightarrow> (\<exists>e. snd (load_btn_load ext s) = Some e))
   \<and> (Window_title_clear \<in> set (emitted s (snd (load_btn_clicked ext s)))
      \<longleftrightarrow> (\<exists>e. snd (load_btn_load ext s) = Some e))"
  using files_btn_failure_events [of s ext path] load_btn_failure_events [of s ext]
  by simp

lemma example_run_12:
  "snd (load_btn_load example_externals (example_app_run 12)) = Some (ModelError ''run not found'')"
  by (simp add: example_externals_def load_btn_load_def load_btn_prepare_def example_app_run_def
        example_app_def example_io_def call_defs)

lemma example_run_2468:
  "snd (load_btn_load example_externals (example_app_run 2468)) = None"
  by (simp add: example_externals_def load_btn_load_def load_btn_prepare_def example_app_run_def
        example_app_def example_io_def call_defs)

theorem load_failure_dialog_witness:
  "(\<exists>title msg. Critical title msg
      \<in> set (emitted example_app (snd (files_btn_clicked example_externals
              [''/data/run/notes.txt'', ''/data/run/scan_2468.h5''] example_app))))
   \<and> Window_title_clear
     \<in> set (emitted example_app (snd (files_btn_clicked example_externals
              [''/data/run/notes.txt'', ''/data/run/scan_2468.h5''] example_app)))
   \<and> Window_title_clear
     \<notin> set (emitted example_app (snd (files_btn_clicked example_externals
              [''/data/run/scan_2468.h5'', ''/data/run/notes.txt''] example_app)))
   \<and> Window_title_clear
     \<in> set (emitted (example_app_run 12) (snd (load_btn_clicked example_externals (example_app_run 12))))
   \<and> Window_title_clear
     \<notin> set (emitted (example_app_run 2468) (snd (load_btn_clicked example_externals (example_app_run 2468))))"
  using
    load_failure_dialog [of example_app example_externals
      "[''/data/run/notes.txt'', ''/data/run/scan_2468.h5'']"]
    load_failure_dialog [of example_app example_externals
      "[''/data/run/scan_2468.h5'', ''/data/run/notes.txt'']"]
    load_failure_dialog [of "example_app_run 12" example_externals "[]"]
    load_failure_dialog [of "example_app_run 2468" example_externals "[]"]
  by (simp add: example_load_fails example_load_succeeds example_run_12 example_run_2468)


subsection \<open>A successful load discards the fit results\<close>

lemma load_btn_updated_by_load:
  assumes "snd (load_btn_load ext s) = None"
  shows "fit (snd (load_btn_clicked ext s)) =
           (fit s)\<lparr>fit_data_sets := data_sets (fst (load_btn_load ext s)), fit_img := Map.empty\<rparr>"
    and "folder_btn_enabled (view (snd (load_btn_clicked ext s))) = False"
  using assms
  by (simp_all add: load_btn_clicked_def handler_of_pair load_btn_try_def
        load_btn_else_def load_btn_load_def load_btn_prepare_def call_defs
        Let_def split: option.splits outcome.splits)

text \<open>
  C9. After a load that succeeded, from a file or from the database, \<^verbatim>\<open>fit_model.fit_img\<close>
  is the empty dictionary and the button "Working Directory" is disabled, also when the
  method that sets the window title raises afterwards.
\<close>

theorem successful_load_clears_fit_img:
  "(\<forall>m. files_btn_load ext path s = Some (m, None) \<longrightarrow>
       fit_img (fit (snd (files_btn_clicked ext path s))) = Map.empty
       \<and> \<not> folder_btn_enabled (view (snd (files_btn_clicked ext path s))))
   \<and> (snd (load_btn_load ext s) = None \<longrightarrow>
       fit_img (fit (snd (load_btn_clicked ext s))) = Map.empty
       \<and> \<not> folder_btn_enabled (view (snd (load_btn_clicked ext s))))"
  using files_btn_updated_by_load [of ext path s] load_btn_updated_by_load [of ext s]
  by simp

theorem successful_load_clears_fit_img_witness:
  "fit_img (fit example_app) \<noteq> Map.empty
   \<and> folder_btn_enabled (view example_app)
   \<and> fit_img (fit (snd (files_btn_clicked example_externals
        [''/data/run/scan_2468.h5'', ''/data/run/notes.txt''] example_app))) = Map.empty
   \<and> \<not> folder_btn_enabled (view (snd (files_btn_clicked example_externals
        [''/data/run/scan_2468.h5'', ''/data/run/notes.txt''] example_app)))
   \<and> fit_img (fit (snd (load_btn_clicked example_externals (example_app_run 2468)))) = Map.empty
   \<and> \<not> folder_btn_enabled (view (snd (load_btn_clicked example_externals (example_app_run 2468))))"
proof -
  have 0: "fit_img (fit example_app) \<noteq> Map.empty \<and> folder_btn_enabled (view example_app)"
    by (simp add: example_app_def fun_eq_iff)
  show ?thesis
    using 0
      successful_load_clears_fit_img [of example_externals
        "[''/data/run/scan_2468.h5'', ''/data/run/notes.txt'']" example_app]
      successful_load_clears_fit_img [of example_externals "[]" "example_app_run 2468"]
    by (simp add: example_load_succeeds example_run_2468)
qed

subsection \<open>HIDE and SHOW\<close>

lemma count_plots_mono: "count_plots ds vs n = Inr k \<Longrightarrow> n \<le> k"
proof (induction vs arbitrary: n)
  case Nil
  then show ?case by simp
next
  case (Cons v vs)
  then show ?case
    by (fastforce split: option.splits if_splits)
qed

lemma count_plots_none_shown:
  "count_plots ds vs n = Inr k \<Longrightarrow>
     (k = n) = (\<forall>v \<in> set vs. \<exists>d. ds v = Some d \<and> plot_index d = 0)"
proof (induction vs arbitrary: n)
  case Nil
  then show ?case by simp
next
  case (Cons v vs)
  show ?case
  proof (cases "ds v")
    case None
    with Cons.prems show ?thesis by simp
  next
    case (Some d)
    show ?thesis
    proof (cases "plot_index d = 0")
      case True
      with Some Cons.prems have "count_plots ds vs n = Inr k" by simp
      with Cons.IH [of n] True Some show ?thesis by simp
    next
      case False
      with Some Cons.prems have c: "count_plots ds vs (n + 1) = Inr k" by simp
      from count_plots_mono [OF c] have "k \<noteq> n" by simp
      with False Some show ?thesis by simp
    qed
  qed
qed

lemma count_plots_total:
  "set vs \<subseteq> dom ds \<Longrightarrow> \<exists>k. count_plots ds vs n = Inr k"
  by (induction vs arbitrary: n) (auto split: option.splits)

lemma set_plot_index_some:
  "data_sets (io s) c = Some d \<Longrightarrow>
     set_plot_index c v s =
       Inr (in_io (\<lambda>m. m\<lparr>data_sets := (data_sets m)(c \<mapsto> d\<lparr>plot_index := v\<rparr>)\<rparr>) s)"
  by (simp add: set_plot_index_def)

lemma rb_1_clicked_io:
  "data_sets (io s) c = Some d \<Longrightarrow>
     io (snd (rb_1_clicked ext c s)) =
       (io s)\<lparr>data_sets := (data_sets (io s))(c \<mapsto> d\<lparr>plot_index := 0\<rparr>)\<rparr>"
  by (simp add: rb_1_clicked_def set_plot_index_some call_defs Let_def
        split: option.splits sum.splits)

lemma rb_2_clicked_io:
  "data_sets (io s) c = Some d \<Longrightarrow>
     io (snd (rb_2_clicked ext c s)) =
       (io s)\<lparr>data_sets := (data_sets (io s))(c \<mapsto> d\<lparr>plot_index := 1\<rparr>)\<rparr>"
  by (simp add: rb_2_clicked_def set_plot_index_some call_defs Let_def
        split: option.splits sum.splits)

lemma rb_1_clicked_done:
  assumes d: "data_sets (io s) c = Some d"
    and fin: "fst (rb_1_clicked ext c s) = Done"
  shows "\<exists>k. snd (plot_multi_exp_data ext ((plot s)\<lparr>plot_data_sets :=
                 (data_sets (io s))(c \<mapsto> d\<lparr>plot_index := 0\<rparr>)\<rparr>)) = None
          \<and> count_plots ((data_sets (io s))(c \<mapsto> d\<lparr>plot_index := 0\<rparr>))
               (file_channel_list (io s)) 0 = Inr k
          \<and> plot (snd (rb_1_clicked ext c s)) =
              (if k = 0
               then (fst (plot_multi_exp_data ext ((plot s)\<lparr>plot_data_sets :=
                       (data_sets (io s))(c \<mapsto> d\<lparr>plot_index := 0\<rparr>)\<rparr>)))\<lparr>show_exp_opt := False\<rparr>
               else fst (plot_multi_exp_data ext ((plot s)\<lparr>plot_data_sets :=
                       (data_sets (io s))(c \<mapsto> d\<lparr>plot_index := 0\<rparr>)\<rparr>)))"
  using fin
  by (auto simp: rb_1_clicked_def set_plot_index_some [OF d] call_defs Let_def
        split: option.splits sum.splits if_splits)


lemma rb_1_clicked_completes:
  assumes d: "data_sets (io s) c = Some d"
    and pm: "snd (plot_multi_exp_data ext ((plot s)\<lparr>plot_data_sets :=
                 (data_sets (io s))(c \<mapsto> d\<lparr>plot_index := 0\<rparr>)\<rparr>)) = None"
    and keys: "set (file_channel_list (io s)) \<subseteq> dom (data_sets (io s))"
  shows "fst (rb_1_clicked ext c s) = Done"
proof -
  from keys have "set (file_channel_list (io s))
      \<subseteq> dom ((data_sets (io s))(c \<mapsto> d\<lparr>plot_index := 0\<rparr>))"
    by auto
  from count_plots_total [OF this, of 0]
  obtain k where "count_plots ((data_sets (io s))(c \<mapsto> d\<lparr>plot_index := 0\<rparr>))
      (file_channel_list (io s)) 0 = Inr k" by blast
  with pm show ?thesis
    by (simp add: rb_1_clicked_def set_plot_index_some [OF d] call_defs Let_def)
qed

text \<open>
  C6. For a channel that has a data set, a click on HIDE leaves its \<^verbatim>\<open>plot_index\<close> at 0 and
  a click on SHOW leaves it at 1. When a click on HIDE completes, \<^verbatim>\<open>plot_model.show_exp_opt\<close>
  has been set to \<open>False\<close> if every channel of \<^verbatim>\<open>io_model.file_channel_list\<close> has
  \<^verbatim>\<open>plot_index\<close> 0; otherwise the handler has not assigned it, and the plot model is as
  \<^verbatim>\<open>plot_multi_exp_data()\<close> left it. The click completes when that method returns and every
  channel of the list has a data set.
\<close>

theorem plot_index_controls_visibility:
  "data_sets (io s) c = Some d \<longrightarrow>
     data_sets (io (snd (rb_1_clicked ext c s))) c = Some (d\<lparr>plot_index := 0\<rparr>)
     \<and> data_sets (io (snd (rb_2_clicked ext c s))) c = Some (d\<lparr>plot_index := 1\<rparr>)
     \<and> (fst (rb_1_clicked ext c s) = Done \<longrightarrow>
          (if \<forall>v \<in> set (file_channel_list (io (snd (rb_1_clicked ext c s)))).
                \<exists>d'. data_sets (io (snd (rb_1_clicked ext c s))) v = Some d' \<and> plot_index d' = 0
           then show_exp_opt (plot (snd (rb_1_clicked ext c s))) = False
           else plot (snd (rb_1_clicked ext c s)) =
                  fst (plot_multi_exp_data ext ((plot s)\<lparr>plot_data_sets :=
                         (data_sets (io s))(c \<mapsto> d\<lparr>plot_index := 0\<rparr>)\<rparr>))))
     \<and> (snd (plot_multi_exp_data ext ((plot s)\<lparr>plot_data_sets :=
                 (data_sets (io s))(c \<mapsto> d\<lparr>plot_index := 0\<rparr>)\<rparr>)) = None
          \<and> set (file_channel_list (io s)) \<subseteq> dom (data_sets (io s))
          \<longrightarrow> fst (rb_1_clicked ext c s) = Done)"
proof (intro impI conjI)
  assume d: "data_sets (io s) c = Some d"
  show "data_sets (io (snd (rb_1_clicked ext c s))) c = Some (d\<lparr>plot_index := 0\<rparr>)"
    by (simp add: rb_1_clicked_io [OF d])
  show "data_sets (io (snd (rb_2_clicked ext c s))) c = Some (d\<lparr>plot_index := 1\<rparr>)"
    by (simp add: rb_2_clicked_io [OF d])
  {
    assume fin: "fst (rb_1_clicked ext c s) = Done"
    from rb_1_clicked_done [OF d fin] obtain k where
      k: "count_plots ((data_sets (io s))(c \<mapsto> d\<lparr>plot_index := 0\<rparr>))
               (file_channel_list (io s)) 0 = Inr k"
      and p: "plot (snd (rb_1_clicked ext c s)) =
              (if k = 0
               then (fst (plot_multi_exp_data ext ((plot s)\<lparr>plot_data_sets :=
                       (data_sets (io s))(c \<mapsto> d\<lparr>plot_index := 0\<rparr>)\<rparr>)))\<lparr>show_exp_opt := False\<rparr>
               else fst (plot_multi_exp_data ext ((plot s)\<lparr>plot_data_sets :=
                       (data_sets (io s))(c \<mapsto> d\<lparr>plot_index := 0\<rparr>)\<rparr>)))"
      by blast
    let ?hidden = "\<forall>v \<in> set (file_channel_list (io (snd (rb_1_clicked ext c s)))).
                \<exists>d'. data_sets (io (snd (rb_1_clicked ext c s))) v = Some d' \<and> plot_index d' = 0"
    from count_plots_none_shown [OF k]
    have eq: "(k = 0) = ?hidden"
      by (simp add: rb_1_clicked_io [OF d])
    show "if ?hidden
           then show_exp_opt (plot (snd (rb_1_clicked ext c s))) = False
           else plot (snd (rb_1_clicked ext c s)) =
                  fst (plot_multi_exp_data ext ((plot s)\<lparr>plot_data_sets :=
                         (data_sets (io s))(c \<mapsto> d\<lparr>plot_index := 0\<rparr>)\<rparr>))"
    proof (cases "k = 0")
      case True
      with eq have ?hidden by blast
      moreover from p True have "show_exp_opt (plot (snd (rb_1_clicked ext c s))) = False"
        by simp
      ultimately show ?thesis by presburger
    next
      case False
      with eq have "\<not> ?hidden" by blast
      moreover from p False have "plot (snd (rb_1_clicked ext c s)) =
                  fst (plot_multi_exp_data ext ((plot s)\<lparr>plot_data_sets :=
                         (data_sets (io s))(c \<mapsto> d\<lparr>plot_index := 0\<rparr>)\<rparr>))"
        by simp
      ultimately show ?thesis by presburger
    qed
  }
  {
    assume "snd (plot_multi_exp_data ext ((plot s)\<lparr>plot_data_sets :=
                 (data_sets (io s))(c \<mapsto> d\<lparr>plot_index := 0\<rparr>)\<rparr>)) = None
          \<and> set (file_channel_list (io s)) \<subseteq> dom (data_sets (io s))"
    then show "fst (rb_1_clicked ext c s) = Done"
      using rb_1_clicked_completes [OF d] by blast
  }
qed


theorem plot_index_controls_visibility_witness:
  "data_sets (io example_loaded) ''sum'' = Some \<lparr>plot_index = 1\<rparr>
   \<and> show_exp_opt (plot example_loaded)
   \<and> fst (rb_1_clicked example_externals ''sum'' example_loaded) = Done
   \<and> data_sets (io (snd (rb_1_clicked example_externals ''sum'' example_loaded))) ''sum''
       = Some \<lparr>plot_index = 0\<rparr>
   \<and> data_sets (io (snd (rb_2_clicked example_externals ''sum'' example_loaded))) ''sum''
       = Some \<lparr>plot_index = 1\<rparr>
   \<and> \<not> show_exp_opt (plot (snd (rb_1_clicked example_externals ''sum'' example_loaded)))"
proof -
  have d: "data_sets (io example_loaded) ''sum'' = Some \<lparr>plot_index = 1\<rparr>"
    by (simp add: example_loaded_def example_scan_def)
  have shown: "show_exp_opt (plot example_loaded)"
    by (simp add: example_loaded_def example_app_def)
  note th = plot_index_controls_visibility
    [of example_loaded "''sum''" "\<lparr>plot_index = 1\<rparr>" example_externals]
  have "snd (plot_multi_exp_data example_externals ((plot example_loaded)\<lparr>plot_data_sets :=
          (data_sets (io example_loaded))(''sum'' \<mapsto> \<lparr>plot_index = 1\<rparr>\<lparr>plot_index := 0\<rparr>)\<rparr>)) = None"
    by (simp add: example_externals_def)
  moreover have "set (file_channel_list (io example_loaded)) \<subseteq> dom (data_sets (io example_loaded))"
    by (simp add: example_loaded_def example_scan_def)
  ultimately have fin: "fst (rb_1_clicked example_externals ''sum'' example_loaded) = Done"
    using th d by blast
  have hidden: "\<forall>v \<in> set (file_channel_list (io (snd (rb_1_clicked example_externals ''sum'' example_loaded)))).
      \<exists>d'. data_sets (io (snd (rb_1_clicked example_externals ''sum'' example_loaded))) v = Some d'
        \<and> plot_index d' = 0"
    by (simp add: rb_1_clicked_io [OF d]) (simp add: example_loaded_def example_scan_def)
  from th d fin
  have "if \<forall>v \<in> set (file_channel_list (io (snd (rb_1_clicked example_externals ''sum'' example_loaded)))).
      \<exists>d'. data_sets (io (snd (rb_1_clicked example_externals ''sum'' example_loaded))) v = Some d'
        \<and> plot_index d' = 0
    then show_exp_opt (plot (snd (rb_1_clicked example_externals ''sum'' example_loaded))) = False
    else plot (snd (rb_1_clicked example_externals ''sum'' example_loaded)) =
           fst (plot_multi_exp_data example_externals ((plot example_loaded)\<lparr>plot_data_sets :=
             (data_sets (io example_loaded))(''sum'' \<mapsto> \<lparr>plot_index = 1\<rparr>\<lparr>plot_index := 0\<rparr>)\<rparr>))"
    by blast
  with hidden have off: "\<not> show_exp_opt (plot (snd (rb_1_clicked example_externals ''sum'' example_loaded)))"
    by presburger
  from th d have "data_sets (io (snd (rb_1_clicked example_externals ''sum'' example_loaded))) ''sum''
       = Some (\<lparr>plot_index = 1\<rparr>\<lparr>plot_index := 0\<rparr>)
     \<and> data_sets (io (snd (rb_2_clicked example_externals ''sum'' example_loaded))) ''sum''
       = Some (\<lparr>plot_index = 1\<rparr>\<lparr>plot_index := 1\<rparr>)"
    by blast
  with d shown fin off show ?thesis by simp
qed

subsection \<open>The \<^verbatim>\<open>checked\<close> expressions of the mask modes\<close>

lemma checked_expr_eq: "checked_expr b m = (mask_opt m = 0)"
  by (cases b)
     (simp_all add: rb_pos_checked_expr_def rb_file_checked_expr_def rb_nomask_checked_expr_def)

text \<open>
  C4. Exactly one mask mode is active at a time if, for every value of \<^verbatim>\<open>io_model.mask_opt\<close>,
  exactly one of the three radio buttons has a true \<^verbatim>\<open>checked\<close> expression, that of the
  button whose handler assigns the value. The source does not have this property: the three
  expressions are the same, \<^verbatim>\<open>io_model.mask_opt==0\<close>. At \<^verbatim>\<open>mask_opt\<close> 0 all three are true,
  and at 1, the value that the handler of \<^verbatim>\<open>rb_pos\<close> assigns, none is.
\<close>

theorem mask_buttons_checked_together:
  "rb_pos_checked_expr example_io \<and> rb_file_checked_expr example_io
   \<and> rb_nomask_checked_expr example_io
   \<and> \<not> rb_pos_checked_expr (example_io\<lparr>mask_opt := assigned_mask_opt Rb_pos\<rparr>)
   \<and> \<not> rb_file_checked_expr (example_io\<lparr>mask_opt := assigned_mask_opt Rb_pos\<rparr>)
   \<and> \<not> rb_nomask_checked_expr (example_io\<lparr>mask_opt := assigned_mask_opt Rb_pos\<rparr>)"
  by (simp add: rb_pos_checked_expr_def rb_file_checked_expr_def rb_nomask_checked_expr_def
        example_io_def)

subsection \<open>The batch entry point\<close>

lemma bind_sum:
  "bind_call fit_pixel_data_and_save_signature [a1, a2] [(''param_file_name'', a3)] =
     Inr [(''working_dir'', a1), (''file_name'', a2), (''param_file_name'', a3),
          (''fit_channel_each'', PyBool False), (''param_channel_list'', PyNone),
          (''save_txt'', PyBool False), (''save_tiff'', PyBool True),
          (''incident_energy'', PyNone)]"
  by (simp add: bind_call_def fit_pixel_data_and_save_signature_def)

lemma bind_energy:
  "bind_call fit_pixel_data_and_save_signature [a1, a2]
       [(''param_file_name'', a3), (''incident_energy'', e)] =
     Inr [(''working_dir'', a1), (''file_name'', a2), (''param_file_name'', a3),
          (''fit_channel_each'', PyBool False), (''param_channel_list'', PyNone),
          (''save_txt'', PyBool False), (''save_tiff'', PyBool True),
          (''incident_energy'', e)]"
  by (simp add: bind_call_def fit_pixel_data_and_save_signature_def)

lemma notebook_fit_each_runs:
  "notebook_fit_each wd fname param_file paramlist =
     Inr \<lparr>scan_directory = PyStr wd, scan_file = PyStr fname,
          parameter_file = PyStr param_file, fitted = Each_channel,
          channel_parameter_files = PyList (map PyStr paramlist),
          incident_energy_used = From_parameter_file,
          writes_txt = True, writes_tiff = True\<rparr>"
  by (simp add: notebook_fit_each_def call_fit_pixel_data_and_save_def bind_call_def
        fit_pixel_data_and_save_signature_def fit_pixel_data_and_save_def)

text \<open>
  C7. The parameters of \<^verbatim>\<open>fit_pixel_data_and_save\<close> are \<^verbatim>\<open>working_dir\<close>, \<^verbatim>\<open>file_name\<close>,
  \<^verbatim>\<open>param_file_name\<close>, \<^verbatim>\<open>fit_channel_each=False\<close>, \<^verbatim>\<open>param_channel_list=None\<close>,
  \<^verbatim>\<open>save_txt=False\<close>, \<^verbatim>\<open>save_tiff=True\<close>, \<^verbatim>\<open>incident_energy=None\<close>. The call of the
  notebook that gives only the three first fits the summed spectrum with the incident energy
  of the parameter file, writes no text output and writes the tiff output; the call that
  also gives \<^verbatim>\<open>incident_energy\<close> fits with the energy given.
\<close>

theorem batch_entry_point_defaults:
  "map fst fit_pixel_data_and_save_signature =
     [''working_dir'', ''file_name'', ''param_file_name'', ''fit_channel_each'',
      ''param_channel_list'', ''save_txt'', ''save_tiff'', ''incident_energy'']
   \<and> map snd fit_pixel_data_and_save_signature =
     [None, None, None, Some (PyBool False), Some PyNone, Some (PyBool False),
      Some (PyBool True), Some PyNone]
   \<and> notebook_fit_sum wd fname param_file =
       Inr \<lparr>scan_directory = PyStr wd, scan_file = PyStr fname,
            parameter_file = PyStr param_file, fitted = Summed,
            channel_parameter_files = PyNone, incident_energy_used = From_parameter_file,
            writes_txt = False, writes_tiff = True\<rparr>
   \<and> (e \<noteq> PyNone \<longrightarrow>
        notebook_fit_energy wd fname param_file e =
          Inr \<lparr>scan_directory = PyStr wd, scan_file = PyStr fname,
               parameter_file = PyStr param_file, fitted = Summed,
               channel_parameter_files = PyNone, incident_energy_used = Override e,
               writes_txt = False, writes_tiff = True\<rparr>)"
  by (simp add: notebook_fit_sum_def notebook_fit_energy_def call_fit_pixel_data_and_save_def
        bind_sum bind_energy fit_pixel_data_and_save_def)
    (simp add: fit_pixel_data_and_save_signature_def)

theorem batch_entry_point_defaults_witness:
  "notebook_fit_energy ''/data'' ''scan_2468.h5'' ''2468_fitting.json'' (PyInt 10) =
          Inr \<lparr>scan_directory = PyStr ''/data'', scan_file = PyStr ''scan_2468.h5'',
               parameter_file = PyStr ''2468_fitting.json'', fitted = Summed,
               channel_parameter_files = PyNone, incident_energy_used = Override (PyInt 10),
               writes_txt = False, writes_tiff = True\<rparr>"
  using batch_entry_point_defaults [of "''/data''" "''scan_2468.h5''" "''2468_fitting.json''" "PyInt 10"]
  by simp

subsection \<open>Only the first selected file is loaded\<close>

lemma files_btn_prepare_io:
  "snd (files_btn_prepare ext p0 s) = None \<Longrightarrow>
     io (fst (files_btn_prepare ext p0 s)) =
       (fst (set_file_name ext ''temp'' ((io s)\<lparr>data_ready := False\<rparr>)))
         \<lparr>working_directory := fst (os_path_split p0)\<rparr>"
  by (simp add: files_btn_prepare_def call_defs Let_def split: option.splits)

lemma files_btn_try_io:
  "io (snd (files_btn_try ext p0 f s)) =
     (case snd (set_file_name ext f (io s)) of
        Some e \<Rightarrow> fst (window_title_clear ext (fst (set_file_name ext f (io s))))
      | None \<Rightarrow> fst (window_title_set_file_name ext f (fst (set_file_name ext f (io s)))))"
  by (simp add: files_btn_try_def files_btn_except_def files_btn_else_def call_defs Let_def
        split: option.splits)

lemma files_btn_clicked_io:
  assumes "snd (set_file_name ext ''temp'' ((io s)\<lparr>data_ready := False\<rparr>)) = None"
  shows "io (snd (files_btn_clicked ext (p0 # others) s)) =
     (let m0 = (fst (set_file_name ext ''temp'' ((io s)\<lparr>data_ready := False\<rparr>)))
                 \<lparr>working_directory := fst (os_path_split p0)\<rparr>;
          r = set_file_name ext (snd (os_path_split p0)) m0
      in case snd r of
           Some e \<Rightarrow> fst (window_title_clear ext (fst r))
         | None \<Rightarrow> fst (window_title_set_file_name ext (snd (os_path_split p0)) (fst r)))"
proof -
  from assms have p: "snd (files_btn_prepare ext p0 s) = None"
    by (simp add: files_btn_prepare_raises)
  then show ?thesis
    by (simp add: files_btn_clicked_cons files_btn_try_io files_btn_prepare_io Let_def
          cong: option.case_cong)
qed

text \<open>
  C8. When the file dialog of "Load Data File" returns several paths, the click does what
  it does for the first alone. Once the assignment of \<^verbatim>\<open>'temp'\<close> has returned, the click
  assigns the directory part of the first path to \<^verbatim>\<open>io_model.working_directory\<close> and then
  its base name to \<^verbatim>\<open>io_model.file_name\<close>. Its first four events are these assignments.
  The guarded assignment is that of the base name, on the model \<open>m0\<close> that the assignment of
  \<^verbatim>\<open>'temp'\<close> left, with the directory part as working directory. The model after the click
  is what \<^verbatim>\<open>window_title_set_file_name\<close> (when the load returned) or
  \<^verbatim>\<open>window_title_clear\<close> (when it raised) made of the model that the guarded assignment
  left. So, when the assignment of \<^verbatim>\<open>file_name\<close> stores the name and keeps the working
  directory, and the two title methods keep both, the model after the click has the
  directory part of the first path as \<^verbatim>\<open>working_directory\<close> and its base name as
  \<^verbatim>\<open>file_name\<close>.
\<close>

theorem only_first_path_loaded:
  "files_btn_clicked ext (p0 # others) s = files_btn_clicked ext [p0] s
   \<and> (snd (set_file_name ext ''temp'' ((io s)\<lparr>data_ready := False\<rparr>)) = None \<longrightarrow>
        (let m0 = (fst (set_file_name ext ''temp'' ((io s)\<lparr>data_ready := False\<rparr>)))
                    \<lparr>working_directory := fst (os_path_split p0)\<rparr>;
             r = set_file_name ext (snd (os_path_split p0)) m0
         in take 4 (emitted s (snd (files_btn_clicked ext (p0 # others) s))) =
              [Set_data_ready False, Set_file_name ''temp'',
               Set_working_directory (fst (os_path_split p0)),
               Set_file_name (snd (os_path_split p0))]
            \<and> files_btn_load ext (p0 # others) s = Some r
            \<and> io (snd (files_btn_clicked ext (p0 # others) s)) =
                (case snd r of
                   Some e \<Rightarrow> fst (window_title_clear ext (fst r))
                 | None \<Rightarrow> fst (window_title_set_file_name ext (snd (os_path_split p0)) (fst r)))
            \<and> ((\<forall>v m. file_name (fst (set_file_name ext v m)) = v
                        \<and> working_directory (fst (set_file_name ext v m)) = working_directory m)
                 \<and> (\<forall>m. file_name (fst (window_title_clear ext m)) = file_name m
                        \<and> working_directory (fst (window_title_clear ext m)) = working_directory m)
                 \<and> (\<forall>v m. file_name (fst (window_title_set_file_name ext v m)) = file_name m
                        \<and> working_directory (fst (window_title_set_file_name ext v m))
                            = working_directory m)
                 \<longrightarrow> working_directory (io (snd (files_btn_clicked ext (p0 # others) s)))
                       = fst (os_path_split p0)
                     \<and> file_name (io (snd (files_btn_clicked ext (p0 # others) s)))
                       = snd (os_path_split p0))))"
proof (intro conjI impI)
  show "files_btn_clicked ext (p0 # others) s = files_btn_clicked ext [p0] s"
    by (simp add: files_btn_clicked_def)
next
  assume t: "snd (set_file_name ext ''temp'' ((io s)\<lparr>data_ready := False\<rparr>)) = None"
  then have p: "snd (files_btn_prepare ext p0 s) = None"
    by (simp add: files_btn_prepare_raises)
  define m0 where "m0 = (fst (set_file_name ext ''temp'' ((io s)\<lparr>data_ready := False\<rparr>)))
                    \<lparr>working_directory := fst (os_path_split p0)\<rparr>"
  define r where "r = set_file_name ext (snd (os_path_split p0)) m0"
  have ev: "take 4 (emitted s (snd (files_btn_clicked ext (p0 # others) s))) =
          [Set_data_ready False, Set_file_name ''temp'',
           Set_working_directory (fst (os_path_split p0)),
           Set_file_name (snd (os_path_split p0))]"
    using p by (simp add: files_btn_clicked_emitted)
  have ld: "files_btn_load ext (p0 # others) s = Some r"
    using p by (simp add: files_btn_load_cons files_btn_prepare_io r_def m0_def)
  have st: "io (snd (files_btn_clicked ext (p0 # others) s)) =
                (case snd r of
                   Some e \<Rightarrow> fst (window_title_clear ext (fst r))
                 | None \<Rightarrow> fst (window_title_set_file_name ext (snd (os_path_split p0)) (fst r)))"
    using files_btn_clicked_io [OF t, of p0 others]
    by (simp add: Let_def r_def m0_def cong: option.case_cong)
  have fr: "working_directory (io (snd (files_btn_clicked ext (p0 # others) s)))
                       = fst (os_path_split p0)
                     \<and> file_name (io (snd (files_btn_clicked ext (p0 # others) s)))
                       = snd (os_path_split p0)"
    if a: "\<forall>v m. file_name (fst (set_file_name ext v m)) = v
                        \<and> working_directory (fst (set_file_name ext v m)) = working_directory m"
      and b: "\<forall>m. file_name (fst (window_title_clear ext m)) = file_name m
                        \<and> working_directory (fst (window_title_clear ext m)) = working_directory m"
      and c: "\<forall>v m. file_name (fst (window_title_set_file_name ext v m)) = file_name m
                        \<and> working_directory (fst (window_title_set_file_name ext v m))
                            = working_directory m"
  proof -
    from a have "file_name (fst r) = snd (os_path_split p0)"
      and "working_directory (fst r) = fst (os_path_split p0)"
      by (simp_all add: r_def m0_def)
    with b c show ?thesis
      by (cases "snd r") (simp_all add: st)
  qed
  show "let m0 = (fst (set_file_name ext ''temp'' ((io s)\<lparr>data_ready := False\<rparr>)))
                    \<lparr>working_directory := fst (os_path_split p0)\<rparr>;
             r = set_file_name ext (snd (os_path_split p0)) m0
         in take 4 (emitted s (snd (files_btn_clicked ext (p0 # others) s))) =
              [Set_data_ready False, Set_file_name ''temp'',
               Set_working_directory (fst (os_path_split p0)),
               Set_file_name (snd (os_path_split p0))]
            \<and> files_btn_load ext (p0 # others) s = Some r
            \<and> io (snd (files_btn_clicked ext (p0 # others) s)) =
                (case snd r of
                   Some e \<Rightarrow> fst (window_title_clear ext (fst r))
                 | None \<Rightarrow> fst (window_title_set_file_name ext (snd (os_path_split p0)) (fst r)))
            \<and> ((\<forall>v m. file_name (fst (set_file_name ext v m)) = v
                        \<and> working_directory (fst (set_file_name ext v m)) = working_directory m)
                 \<and> (\<forall>m. file_name (fst (window_title_clear ext m)) = file_name m
                        \<and> working_directory (fst (window_title_clear ext m)) = working_directory m)
                 \<and> (\<forall>v m. file_name (fst (window_title_set_file_name ext v m)) = file_name m
                        \<and> working_directory (fst (window_title_set_file_name ext v m))
                            = working_directory m)
                 \<longrightarrow> working_directory (io (snd (files_btn_clicked ext (p0 # others) s)))
                       = fst (os_path_split p0)
                     \<and> file_name (io (snd (files_btn_clicked ext (p0 # others) s)))
                       = snd (os_path_split p0))"
    unfolding Let_def m0_def [symmetric] r_def [symmetric]
    using ev ld st fr by blast
qed


theorem only_first_path_loaded_witness:
  "snd (set_file_name example_externals ''temp'' ((io example_app)\<lparr>data_ready := False\<rparr>)) = None
   \<and> working_directory (io example_app) = ''/data''
   \<and> files_btn_clicked example_externals [''/data/run/scan_2468.h5'', ''/data/run/notes.txt''] example_app
       = files_btn_clicked example_externals [''/data/run/scan_2468.h5''] example_app
   \<and> take 4 (emitted example_app (snd (files_btn_clicked example_externals
         [''/data/run/scan_2468.h5'', ''/data/run/notes.txt''] example_app))) =
          [Set_data_ready False, Set_file_name ''temp'', Set_working_directory ''/data/run'',
           Set_file_name ''scan_2468.h5'']
   \<and> working_directory (io (snd (files_btn_clicked example_externals
         [''/data/run/scan_2468.h5'', ''/data/run/notes.txt''] example_app))) = ''/data/run''
   \<and> file_name (io (snd (files_btn_clicked example_externals
         [''/data/run/scan_2468.h5'', ''/data/run/notes.txt''] example_app))) = ''scan_2468.h5''"
proof -
  have t: "snd (set_file_name example_externals ''temp'' ((io example_app)\<lparr>data_ready := False\<rparr>)) = None"
    by (simp add: example_externals_def)
  have w: "working_directory (io example_app) = ''/data''"
    by (simp add: example_app_def example_io_def)
  have sp: "os_path_split ''/data/run/scan_2468.h5'' = (''/data/run'', ''scan_2468.h5'')"
    by (simp add: os_path_split_def)
  have fr: "(\<forall>v m. file_name (fst (set_file_name example_externals v m)) = v
                \<and> working_directory (fst (set_file_name example_externals v m)) = working_directory m)
         \<and> (\<forall>m. file_name (fst (window_title_clear example_externals m)) = file_name m
                \<and> working_directory (fst (window_title_clear example_externals m)) = working_directory m)
         \<and> (\<forall>v m. file_name (fst (window_title_set_file_name example_externals v m)) = file_name m
                \<and> working_directory (fst (window_title_set_file_name example_externals v m))
                    = working_directory m)"
    by (simp add: example_externals_def example_scan_def)
  note th = only_first_path_loaded [of example_externals "''/data/run/scan_2468.h5''"
      "[''/data/run/notes.txt'']" example_app, unfolded Let_def]
  from th [THEN conjunct2] t
  have ev: "take 4 (emitted example_app (snd (files_btn_clicked example_externals
         [''/data/run/scan_2468.h5'', ''/data/run/notes.txt''] example_app))) =
          [Set_data_ready False, Set_file_name ''temp'', Set_working_directory ''/data/run'',
           Set_file_name ''scan_2468.h5'']"
    by (simp add: sp)
  from th [THEN conjunct2] t fr
  have "working_directory (io (snd (files_btn_clicked example_externals
         [''/data/run/scan_2468.h5'', ''/data/run/notes.txt''] example_app)))
           = fst (os_path_split ''/data/run/scan_2468.h5'')
      \<and> file_name (io (snd (files_btn_clicked example_externals
         [''/data/run/scan_2468.h5'', ''/data/run/notes.txt''] example_app)))
           = snd (os_path_split ''/data/run/scan_2468.h5'')"
    by blast
  then have st: "working_directory (io (snd (files_btn_clicked example_externals
         [''/data/run/scan_2468.h5'', ''/data/run/notes.txt''] example_app))) = ''/data/run''
      \<and> file_name (io (snd (files_btn_clicked example_externals
         [''/data/run/scan_2468.h5'', ''/data/run/notes.txt''] example_app))) = ''scan_2468.h5''"
    by (simp add: sp)
  from th [THEN conjunct1] t w ev st show ?thesis
    by blast
qed

subsection \<open>Overwriting existing files\<close>

lemma overwrite_question_shown:
  "cb_file_overwrite_existing_checked (view s) \<Longrightarrow>
     Question ''Warning'' overwrite_question_text
       \<in> set (emitted s (snd (cb_file_overwrite_existing_changed origin res s)))"
  by (cases res)
     (simp_all add: cb_file_overwrite_existing_changed_def assign_overwrite_checked_def
        set_overwrite_checked_def emitted_def Let_def split: change_origin.splits)

lemma overwrite_no_after_click:
  "cb_file_overwrite_existing_checked (view s) \<Longrightarrow> button_text b = ''No'' \<Longrightarrow>
     fst (cb_file_overwrite_existing_changed User_click (Some b) s) = Done
     \<and> \<not> cb_file_overwrite_existing_checked
           (view (snd (cb_file_overwrite_existing_changed User_click (Some b) s)))
     \<and> \<not> file_overwrite_existing
           (io (snd (cb_file_overwrite_existing_changed User_click (Some b) s)))"
  by (simp add: cb_file_overwrite_existing_changed_def assign_overwrite_checked_def
        set_overwrite_checked_def Let_def)

lemma overwrite_stays_checked:
  "cb_file_overwrite_existing_checked (view s) \<Longrightarrow>
     cb_file_overwrite_existing_checked
        (view (snd (cb_file_overwrite_existing_changed origin res s)))
       = (\<forall>b. res = Some b \<longrightarrow> button_text b \<noteq> ''No'')"
  by (cases res)
     (auto simp: cb_file_overwrite_existing_changed_def assign_overwrite_checked_def
        set_overwrite_checked_def Let_def split: change_origin.splits)

text \<open>
  C10. The option "Overwrite Existing Files" should stay enabled only after an explicit
  confirmation. The handler shows the question whenever the checkbox has become checked,
  and after a click the answer "No" resets the checkbox and the attribute of the model. It
  misses two cases. When the question box is closed without an answer, \<open>res\<close> is \<^verbatim>\<open>None\<close>,
  \<^verbatim>\<open>res.text\<close> raises \<^verbatim>\<open>AttributeError\<close>, and the checkbox and
  \<^verbatim>\<open>io_model.file_overwrite_existing\<close> stay \<open>True\<close> though nothing was confirmed. When the
  checkbox became checked through the binding, the answer "No" unchecks the checkbox and
  leaves \<^verbatim>\<open>io_model.file_overwrite_existing\<close> at \<open>True\<close>.
\<close>

theorem overwrite_enabled_without_confirmation:
  "cb_file_overwrite_existing_checked (view (set_overwrite_checked True example_app))
   \<and> fst (cb_file_overwrite_existing_changed User_click None
            (set_overwrite_checked True example_app)) = Raised AttributeError
   \<and> emitted (set_overwrite_checked True example_app)
        (snd (cb_file_overwrite_existing_changed User_click None
                (set_overwrite_checked True example_app)))
       = [Question ''Warning'' overwrite_question_text]
   \<and> cb_file_overwrite_existing_checked
        (view (snd (cb_file_overwrite_existing_changed User_click None
                      (set_overwrite_checked True example_app))))
   \<and> file_overwrite_existing
        (io (snd (cb_file_overwrite_existing_changed User_click None
                    (set_overwrite_checked True example_app))))
   \<and> fst (cb_file_overwrite_existing_changed Model_change
            (Some \<lparr>button_text = ''No'', button_action = ''reject''\<rparr>)
            (set_overwrite_checked True example_app)) = Done
   \<and> \<not> cb_file_overwrite_existing_checked
        (view (snd (cb_file_overwrite_existing_changed Model_change
                      (Some \<lparr>button_text = ''No'', button_action = ''reject''\<rparr>)
                      (set_overwrite_checked True example_app))))
   \<and> file_overwrite_existing
        (io (snd (cb_file_overwrite_existing_changed Model_change
                    (Some \<lparr>button_text = ''No'', button_action = ''reject''\<rparr>)
                    (set_overwrite_checked True example_app))))"
  by (simp add: cb_file_overwrite_existing_changed_def assign_overwrite_checked_def
        set_overwrite_checked_def emitted_def Let_def)

end
